theory Spec2Isabelle
  imports Complex_Main "HOL-Library.Multiset" "HOL-Library.Log_Nat"
begin

section \<open>JavaScript values as the executor observes them\<close>

text \<open>
  \<^verbatim>\<open>SocketControllerExecutor\<close> is written against values of type \<^verbatim>\<open>any\<close>. The embedding
  keeps of a value exactly what the executor reads from it: whether it is \<^verbatim>\<open>null\<close> or
  \<^verbatim>\<open>undefined\<close>, its truthiness, strict equality with a string literal, the result of unary
  plus, \<^verbatim>\<open>instanceof Object\<close>, \<^verbatim>\<open>instanceof Error\<close>, \<^verbatim>\<open>constructor.name\<close>,
  \<^verbatim>\<open>Object.keys\<close> and \<^verbatim>\<open>toString()\<close>.

  A number is an IEEE double: NaN, an infinity, or \<open>Finite q\<close> with \<open>q\<close> the rational
  value of a finite double; \<^verbatim>\<open>-0\<close> is not told apart from \<^verbatim>\<open>0\<close>.
\<close>

datatype js_number = NaN | PosInfinity | NegInfinity | Finite rat

subsection \<open>Rounding to a double\<close>

text \<open>\<open>floor_log2 a\<close> is, for \<open>a > 0\<close>, the exponent \<open>e\<close> with \<open>2 powi e \<le> a < 2 powi (e + 1)\<close>
  (lemma \<open>floor_log2_bounds\<close> below): the difference of the bit lengths of numerator and
  denominator, or one less.\<close>

definition floor_log2 :: "rat \<Rightarrow> int" where
  "floor_log2 a =
     (let e0 = bitlen (fst (quotient_of a)) - bitlen (snd (quotient_of a))
      in if 2 powi e0 \<le> a then e0 else e0 - 1)"

text \<open>The nearest integer; of two equally near, the even one.\<close>

definition round_half_even :: "rat \<Rightarrow> int" where
  "round_half_even x =
     (let f = \<lfloor>x\<rfloor>; d = x - of_int f
      in if d < 1 / 2 then f else if 1 / 2 < d then f + 1 else if even f then f else f + 1)"

text \<open>
  The double nearest to a rational (round to nearest, ties to even). A finite double with
  exponent \<open>e\<close> is a multiple of \<open>ulp = 2 powi (e - 52)\<close>, the exponent being at least
  -1022 (the doubles below \<open>2 powi (- 1022)\<close> are subnormal, multiples of
  \<open>2 powi (- 1074)\<close>); \<open>m * ulp\<close> is the multiple nearest to \<open>\<bar>q\<bar>\<close>. The result is infinite
  when \<open>m * ulp\<close> reaches \<open>2 powi 1024\<close>, which is what the test on \<open>e\<close> and \<open>m\<close> says
  (lemma \<open>round_to_double_overflow\<close> below).
\<close>

definition round_to_double :: "rat \<Rightarrow> js_number" where
  "round_to_double q =
     (if q = 0 then Finite 0
      else
        let a = \<bar>q\<bar>;
            e = max (floor_log2 a) (- 1022);
            ulp = 2 powi (e - 52);
            m = round_half_even (a / ulp)
        in if 1024 \<le> e \<or> (e = 1023 \<and> 2 ^ 53 \<le> m)
           then (if 0 < q then PosInfinity else NegInfinity)
           else Finite (if 0 < q then of_int m * ulp else - (of_int m * ulp)))"

text \<open>\<^verbatim>\<open>a - b\<close>, \<^verbatim>\<open>a < b\<close> and \<^verbatim>\<open>a > 0\<close> on numbers.\<close>

fun js_minus :: "js_number \<Rightarrow> js_number \<Rightarrow> js_number" where
  "js_minus NaN _ = NaN"
| "js_minus _ NaN = NaN"
| "js_minus PosInfinity PosInfinity = NaN"
| "js_minus PosInfinity _ = PosInfinity"
| "js_minus NegInfinity NegInfinity = NaN"
| "js_minus NegInfinity _ = NegInfinity"
| "js_minus (Finite a) PosInfinity = NegInfinity"
| "js_minus (Finite a) NegInfinity = PosInfinity"
| "js_minus (Finite a) (Finite b) = round_to_double (a - b)"

fun js_less :: "js_number \<Rightarrow> js_number \<Rightarrow> bool" where
  "js_less NaN _ = False"
| "js_less _ NaN = False"
| "js_less PosInfinity _ = False"
| "js_less NegInfinity NegInfinity = False"
| "js_less NegInfinity _ = True"
| "js_less (Finite a) PosInfinity = True"
| "js_less (Finite a) NegInfinity = False"
| "js_less (Finite a) (Finite b) = (a < b)"

fun js_positive :: "js_number \<Rightarrow> bool" where
  "js_positive PosInfinity = True"
| "js_positive (Finite q) = (0 < q)"
| "js_positive _ = False"

text \<open>A number that has a place in the order of numbers: an infinity, or a finite double.
  NaN has none.\<close>

definition comparable :: "js_number \<Rightarrow> bool" where
  "comparable n =
     (case n of Finite q \<Rightarrow> round_to_double q = Finite q | NaN \<Rightarrow> False | _ \<Rightarrow> True)"

text \<open>
  A function value (a class is one). Only two things are read from it: its identity with
  the global \<^verbatim>\<open>Object\<close> (\<^verbatim>\<open>reflectedType !== Object\<close>) and its \<^verbatim>\<open>name\<close>. A user class
  that happens to be called \<^verbatim>\<open>Object\<close> is \<open>Function ''Object''\<close>, a different function
  with the same name.
\<close>

datatype js_function = GlobalObject | Function string

fun function_name :: "js_function \<Rightarrow> string" where
  "function_name GlobalObject = ''Object''"
| "function_name (Function n) = n"

datatype js_value =
    JUndefined
  | JNull
  | JBool bool
  | JNum js_number
  | JStr string
  | JArray "js_value list"
  | JObject (obj_constructor: js_function) (obj_isError: bool) (obj_toString: string)
      (obj_props: "(string \<times> js_value) list")

text \<open>
  \<open>JObject c e s ps\<close> is an object whose \<^verbatim>\<open>constructor\<close> is \<open>c\<close>, with
  \<^verbatim>\<open>Error.prototype\<close> on its prototype chain iff \<open>e\<close>, whose \<^verbatim>\<open>toString()\<close> returns \<open>s\<close>,
  and whose own enumerable properties are \<open>ps\<close>, in order.
\<close>

text \<open>A promise that has settled: \<open>Inl\<close> is a rejection (or a throw) with its reason.\<close>

type_synonym 'a settled = "js_value + 'a"

fun is_nullish :: "js_value \<Rightarrow> bool" where
  "is_nullish JUndefined = True"
| "is_nullish JNull = True"
| "is_nullish _ = False"

text \<open>\<^verbatim>\<open>!!v\<close>: the falsy values are undefined, null, false, 0, NaN and the empty string.\<close>

fun truthy :: "js_value \<Rightarrow> bool" where
  "truthy JUndefined = False"
| "truthy JNull = False"
| "truthy (JBool b) = b"
| "truthy (JNum n) = (n \<noteq> NaN \<and> n \<noteq> Finite 0)"
| "truthy (JStr s) = (s \<noteq> [])"
| "truthy (JArray _) = True"
| "truthy (JObject _ _ _ _) = True"

text \<open>\<^verbatim>\<open>a || b\<close>\<close>

definition js_or :: "js_value \<Rightarrow> js_value \<Rightarrow> js_value" where
  "js_or a b = (if truthy a then a else b)"

text \<open>\<^verbatim>\<open>v instanceof Object\<close>: true of objects and arrays, false of primitives.\<close>

fun instanceof_Object :: "js_value \<Rightarrow> bool" where
  "instanceof_Object (JArray _) = True"
| "instanceof_Object (JObject _ _ _ _) = True"
| "instanceof_Object _ = False"

fun instanceof_Error :: "js_value \<Rightarrow> bool" where
  "instanceof_Error (JObject _ e _ _) = e"
| "instanceof_Error _ = False"

text \<open>
  \<^verbatim>\<open>v.constructor.name\<close> for a value that is neither null nor undefined; primitives are
  boxed, so a string has the constructor \<^verbatim>\<open>String\<close>. Reading \<^verbatim>\<open>constructor\<close> of null or
  undefined throws, which is \<open>None\<close> here.
\<close>

fun constructor_name :: "js_value \<Rightarrow> string option" where
  "constructor_name JUndefined = None"
| "constructor_name JNull = None"
| "constructor_name (JBool _) = Some ''Boolean''"
| "constructor_name (JNum _) = Some ''Number''"
| "constructor_name (JStr _) = Some ''String''"
| "constructor_name (JArray _) = Some ''Array''"
| "constructor_name (JObject c _ _ _) = Some (function_name c)"

text \<open>
  \<^verbatim>\<open>Object.keys(v).length\<close>; \<^verbatim>\<open>Object.keys\<close> throws on null and undefined (\<open>None\<close>), a
  string has one key per character, other primitives none.
\<close>

fun object_keys_length :: "js_value \<Rightarrow> nat option" where
  "object_keys_length JUndefined = None"
| "object_keys_length JNull = None"
| "object_keys_length (JBool _) = Some 0"
| "object_keys_length (JNum _) = Some 0"
| "object_keys_length (JStr s) = Some (length s)"
| "object_keys_length (JArray xs) = Some (length xs)"
| "object_keys_length (JObject _ _ _ ps) = Some (length ps)"

text \<open>The error a failed property read or call throws.\<close>

definition TypeError :: "string \<Rightarrow> js_value" where
  "TypeError msg = JObject (Function ''TypeError'') True (''TypeError: '' @ msg) []"

subsection \<open>Unary plus\<close>

text \<open>
  \<^verbatim>\<open>+value\<close> is ToNumber. On a string it is StringToNumber: the string is trimmed of white
  space; the empty string is 0; otherwise it must be a StrNumericLiteral (a signed decimal
  literal with optional fraction and exponent, \<^verbatim>\<open>Infinity\<close>, or an unsigned binary, octal or
  hexadecimal integer), and anything else is NaN. The functions for the parts of a literal
  give its mathematical value, which \<open>StringToNumber\<close> rounds to a double at the end.
  Characters are code units below 256.
\<close>

definition isWhiteSpace :: "char \<Rightarrow> bool" where
  "isWhiteSpace c = ((of_char c :: nat) \<in> {9, 10, 11, 12, 13, 32, 160})"

definition trim :: "string \<Rightarrow> string" where
  "trim s = rev (dropWhile isWhiteSpace (rev (dropWhile isWhiteSpace s)))"

text \<open>The value of a digit in any radix up to 16; 16 for a character that is no digit.\<close>

definition digitValue :: "char \<Rightarrow> nat" where
  "digitValue c =
     (let n = (of_char c :: nat) in
      if 48 \<le> n \<and> n \<le> 57 then n - 48
      else if 97 \<le> n \<and> n \<le> 102 then n - 87
      else if 65 \<le> n \<and> n \<le> 70 then n - 55
      else 16)"

definition isDigits :: "nat \<Rightarrow> string \<Rightarrow> bool" where
  "isDigits radix ds = (ds \<noteq> [] \<and> list_all (\<lambda>c. digitValue c < radix) ds)"

definition digitsValue :: "nat \<Rightarrow> string \<Rightarrow> nat" where
  "digitsValue radix ds = foldl (\<lambda>a c. a * radix + digitValue c) 0 ds"

text \<open>ExponentPart, after its \<^verbatim>\<open>e\<close> or \<^verbatim>\<open>E\<close>: a signed integer.\<close>

definition SignedInteger :: "string \<Rightarrow> int option" where
  "SignedInteger s =
     (case s of
        [] \<Rightarrow> None
      | c # ds \<Rightarrow>
          if c = CHR ''+'' then (if isDigits 10 ds then Some (int (digitsValue 10 ds)) else None)
          else if c = CHR ''-'' then (if isDigits 10 ds then Some (- int (digitsValue 10 ds)) else None)
          else if isDigits 10 s then Some (int (digitsValue 10 s))
          else None)"

text \<open>
  The part before the exponent: \<^verbatim>\<open>DecimalDigits\<close>, \<^verbatim>\<open>DecimalDigits . DecimalDigits?\<close> or
  \<^verbatim>\<open>. DecimalDigits\<close>.
\<close>

definition DecimalMantissa :: "string \<Rightarrow> rat option" where
  "DecimalMantissa m =
     (let ip = takeWhile (\<lambda>c. digitValue c < 10) m;
          r = dropWhile (\<lambda>c. digitValue c < 10) m
      in case r of
           [] \<Rightarrow> if ip \<noteq> [] then Some (of_nat (digitsValue 10 ip)) else None
         | c # fp \<Rightarrow>
             if c = CHR ''.'' \<and> list_all (\<lambda>c. digitValue c < 10) fp \<and> (ip \<noteq> [] \<or> fp \<noteq> [])
             then Some (of_nat (digitsValue 10 ip) + of_nat (digitsValue 10 fp) / 10 ^ length fp)
             else None)"

definition scale10 :: "rat \<Rightarrow> int \<Rightarrow> rat" where
  "scale10 q e = (if 0 \<le> e then q * 10 ^ nat e else q / 10 ^ nat (- e))"

definition StrUnsignedDecimalLiteral :: "string \<Rightarrow> js_number option" where
  "StrUnsignedDecimalLiteral s =
     (if s = ''Infinity'' then Some PosInfinity
      else
        let m = takeWhile (\<lambda>c. c \<noteq> CHR ''e'' \<and> c \<noteq> CHR ''E'') s;
            r = dropWhile (\<lambda>c. c \<noteq> CHR ''e'' \<and> c \<noteq> CHR ''E'') s
        in case DecimalMantissa m of
             None \<Rightarrow> None
           | Some q \<Rightarrow>
               (case r of
                  [] \<Rightarrow> Some (Finite q)
                | _ # ex \<Rightarrow>
                    (case SignedInteger ex of
                       None \<Rightarrow> None
                     | Some e \<Rightarrow> Some (Finite (scale10 q e)))))"

fun negate :: "js_number \<Rightarrow> js_number" where
  "negate NaN = NaN"
| "negate PosInfinity = NegInfinity"
| "negate NegInfinity = PosInfinity"
| "negate (Finite q) = Finite (- q)"

definition StrDecimalLiteral :: "string \<Rightarrow> js_number option" where
  "StrDecimalLiteral s =
     (case s of
        [] \<Rightarrow> None
      | c # u \<Rightarrow>
          if c = CHR ''+'' then StrUnsignedDecimalLiteral u
          else if c = CHR ''-'' then map_option negate (StrUnsignedDecimalLiteral u)
          else StrUnsignedDecimalLiteral s)"

definition NonDecimalIntegerLiteral :: "string \<Rightarrow> js_number option" where
  "NonDecimalIntegerLiteral s =
     (case s of
        z # p # ds \<Rightarrow>
          if z \<noteq> CHR ''0'' then None
          else
            let radix = (if p = CHR ''x'' \<or> p = CHR ''X'' then 16
                         else if p = CHR ''o'' \<or> p = CHR ''O'' then 8
                         else if p = CHR ''b'' \<or> p = CHR ''B'' then 2
                         else 0 :: nat)
            in if isDigits radix ds then Some (Finite (of_nat (digitsValue radix ds))) else None
      | _ \<Rightarrow> None)"

fun RoundMVResult :: "js_number \<Rightarrow> js_number" where
  "RoundMVResult (Finite q) = round_to_double q"
| "RoundMVResult n = n"

definition StringToNumber :: "string \<Rightarrow> js_number" where
  "StringToNumber str =
     (let s = trim str in
      if s = [] then Finite 0
      else case NonDecimalIntegerLiteral s of
             Some n \<Rightarrow> RoundMVResult n
           | None \<Rightarrow> (case StrDecimalLiteral s of Some n \<Rightarrow> RoundMVResult n | None \<Rightarrow> NaN))"

text \<open>ToNumber of a primitive. What it does on an object or an array (ToPrimitive, which
  calls the object's own \<^verbatim>\<open>valueOf\<close> and \<^verbatim>\<open>toString\<close> and may throw) is supplied by the
  runtime below.\<close>

fun primitiveToNumber :: "js_value \<Rightarrow> js_number option" where
  "primitiveToNumber JUndefined = Some NaN"
| "primitiveToNumber JNull = Some (Finite 0)"
| "primitiveToNumber (JBool b) = Some (Finite (if b then 1 else 0))"
| "primitiveToNumber (JNum n) = Some n"
| "primitiveToNumber (JStr s) = Some (StringToNumber s)"
| "primitiveToNumber _ = None"

text \<open>\<^verbatim>\<open>String.prototype.toLowerCase\<close> on the letters \<^verbatim>\<open>A\<close> to \<^verbatim>\<open>Z\<close>.\<close>

definition toLowerCase :: "string \<Rightarrow> string" where
  "toLowerCase s =
     map (\<lambda>c. let n = (of_char c :: nat) in if 65 \<le> n \<and> n \<le> 90 then char_of (n + 32) else c) s"

section \<open>What the executor is given: libraries, metadata, the connection\<close>

text \<open>
  \<^verbatim>\<open>param.reflectedType\<close>: nothing, a function (\<^verbatim>\<open>Number\<close>, \<^verbatim>\<open>Object\<close>, a class), or a
  \<^verbatim>\<open>String\<close> object, the three cases \<^verbatim>\<open>handleParamFormat\<close> tells apart.
\<close>

datatype reflected_type =
    NoReflectedType | ReflectedFunction js_function | ReflectedStringObject string

text \<open>
  The language built-ins and the two libraries the executor imports
  (\<^verbatim>\<open>class-transformer\<close>, \<^verbatim>\<open>class-validator\<close>), as parameters. \<open>JSON_parse\<close> is \<open>None\<close>
  where \<^verbatim>\<open>JSON.parse\<close> throws. \<open>class_validate\<close> is \<^verbatim>\<open>validate\<close> of class-validator,
  named apart from the executor's own \<^verbatim>\<open>validate\<close> flag.
\<close>

record runtime =
  JSON_parse :: "string \<Rightarrow> js_value option"
  JSON_stringify :: "js_value \<Rightarrow> string"
  objectToNumber :: "js_value \<Rightarrow> js_number settled"
  plainToClass :: "reflected_type \<Rightarrow> js_value \<Rightarrow> js_value \<Rightarrow> js_value"
  classToPlain :: "js_value \<Rightarrow> js_value \<Rightarrow> js_value"
  class_validate :: "js_value \<Rightarrow> js_value list"

definition unaryPlus :: "runtime \<Rightarrow> js_value \<Rightarrow> js_number settled" where
  "unaryPlus rt v = (case primitiveToNumber v of Some n \<Rightarrow> Inr n | None \<Rightarrow> objectToNumber rt v)"

text \<open>
  Modelled from the spec: the enumeration \<^verbatim>\<open>ParamTypes\<close> (its file is not among the
  sources). The first six members are the ones \<^verbatim>\<open>handleAction\<close> names; the spec's
  remaining source kinds are message-body and custom.
\<close>

datatype ParamTypes =
    CONNECTED_SOCKET | SOCKET_IO | SOCKET_QUERY_PARAM | SOCKET_ID | SOCKET_REQUEST
  | SOCKET_ROOMS | SOCKET_BODY | CUSTOM

text \<open>
  \<^verbatim>\<open>param.value\<close>: the query parameter's name for \<^verbatim>\<open>SOCKET_QUERY_PARAM\<close>, the
  \<^verbatim>\<open>MessageBodyOptions\<close> (with their optional \<^verbatim>\<open>validate\<close>) for a message body.
\<close>

datatype param_value = NoValue | NameValue string | BodyOptions "bool option"

text \<open>
  \<^verbatim>\<open>ParamMetadata\<close>. The class is not among the sources; the fields are the ones the
  executor reads (\<^verbatim>\<open>type\<close> and \<^verbatim>\<open>value\<close> are \<open>param_type\<close> and \<open>param_value\<close> here).
  \<open>index\<close> is the position of the parameter in the handler's signature. A transform is
  user code: it may throw, or return a promise that rejects.
\<close>

record ParamMetadata =
  index :: nat
  param_type :: ParamTypes
  reflectedType :: reflected_type
  param_value :: param_value
  transform :: "(js_value \<Rightarrow> js_value \<Rightarrow> js_value settled) option"
  param_classTransformOptions :: js_value

text \<open>
  \<^verbatim>\<open>ResultMetadata\<close>, one emission policy. The class is not among the sources. The executor
  reads its \<^verbatim>\<open>value\<close> (the event name, \<open>result_value\<close> here), its
  \<^verbatim>\<open>classTransformOptions\<close> and, for emit-on-fail-for, its \<^verbatim>\<open>errorType\<close>. What was
  registered as the error type is \<open>errorTypeReference\<close>: nothing, a string, the type, or a
  thunk returning the type (the sample controller writes \<^verbatim>\<open>() => ValidationException\<close>).
\<close>

datatype type_reference =
    NoTypeReference | TypeName string | TypeItself js_function | TypeThunk "unit \<Rightarrow> js_function"

datatype expected_type = ExpectedFunction js_function | ExpectedString string

record ResultMetadata =
  result_value :: string
  result_classTransformOptions :: js_value
  errorTypeReference :: type_reference

text \<open>
  Modelled from the spec: \<^verbatim>\<open>errorType\<close> of \<^verbatim>\<open>ResultMetadata\<close>, which is not among the
  sources. The spec has the type reference of an emit-on-fail-for policy work when it is
  supplied lazily, resolved at match time and not at registration time: what the executor
  reads as \<^verbatim>\<open>action.emitOnFailFor.errorType\<close> when it matches an error is the type, with a
  thunk called then. It is a function or a string (\<^verbatim>\<open>errorMatchesType\<close> takes
  \<^verbatim>\<open>Function | string\<close>), or nothing.
\<close>

definition errorType :: "ResultMetadata \<Rightarrow> expected_type option" where
  "errorType r =
     (case errorTypeReference r of
        NoTypeReference \<Rightarrow> None
      | TypeName s \<Rightarrow> Some (ExpectedString s)
      | TypeItself f \<Rightarrow> Some (ExpectedFunction f)
      | TypeThunk th \<Rightarrow> Some (ExpectedFunction (th ())))"

datatype ActionTypes = CONNECT | DISCONNECT | MESSAGE

text \<open>
  \<^verbatim>\<open>ActionMetadata\<close>. The class is not among the sources; the fields are the ones the
  executor reads (\<^verbatim>\<open>type\<close> is \<open>action_type\<close> here). \<open>params\<close> is the stored list of
  parameter descriptors, the array \<^verbatim>\<open>handleAction\<close> sorts; \<open>executeAction\<close> calls the
  controller method with the argument list and settles with what it returns or throws.
\<close>

record ActionMetadata =
  action_type :: ActionTypes
  name :: string
  params :: "ParamMetadata list"
  emitOnSuccess :: "ResultMetadata option"
  emitOnFail :: "ResultMetadata option"
  emitOnFailFor :: "ResultMetadata option"
  skipEmitOnEmptyResult :: bool
  executeAction :: "js_value list \<Rightarrow> js_value settled"

text \<open>
  \<^verbatim>\<open>MiddlewareMetadata\<close> (the class is not among the sources): the \<^verbatim>\<open>priority\<close> the
  executor sorts by, a number, or \<^verbatim>\<open>undefined\<close> (\<open>None\<close>) for a middleware that was given
  none, and the middleware object \<^verbatim>\<open>instance\<close> whose \<^verbatim>\<open>use\<close> the installed wrapper calls.
\<close>

record MiddlewareMetadata =
  priority :: "js_number option"
  middleware_instance :: js_value

text \<open>The public properties of the executor, and the \<^verbatim>\<open>io\<close> of its constructor.\<close>

record SocketControllerExecutor =
  useClassTransformer :: bool
  classToPlainTransformOptions :: js_value
  plainToClassTransformOptions :: js_value
  validate :: bool
  io :: js_value

text \<open>
  The connection object: itself as a value (what a handler or a transform receives), and
  the parts the executor reads from it. A key missing from \<^verbatim>\<open>handshake.query\<close> reads as
  \<^verbatim>\<open>undefined\<close>.
\<close>

record socket =
  socket_object :: js_value
  socket_id :: js_value
  handshake_query :: "string \<Rightarrow> js_value"
  request :: js_value
  rooms :: js_value

text \<open>The \<^verbatim>\<open>options\<close> of \<^verbatim>\<open>handleAction\<close>; \<open>data\<close> is \<^verbatim>\<open>undefined\<close> when there is none.\<close>

record options =
  socket :: socket
  data :: js_value

section \<open>The errors of parameter resolution\<close>

text \<open>
  \<^verbatim>\<open>Exception\<close> does not extend \<^verbatim>\<open>Error\<close>: its constructor sets \<^verbatim>\<open>message\<close> and
  \<^verbatim>\<open>name = new.target.name\<close>; \<^verbatim>\<open>ValidationException\<close> then stores the array it was
  given as \<^verbatim>\<open>errors\<close>.
\<close>

definition ValidationException :: "js_value list \<Rightarrow> js_value" where
  "ValidationException errors =
     JObject (Function ''ValidationException'') False ''[object Object]''
       [(''message'', JStr ''Validation failed''),
        (''name'', JStr ''ValidationException''),
        (''errors'', JArray errors)]"

definition ParameterParseJsonError :: "runtime \<Rightarrow> js_value \<Rightarrow> js_value" where
  "ParameterParseJsonError rt v =
     JObject (Function ''ParameterParseJsonError'') False ''[object Object]''
       [(''message'', JStr (''Parameter is invalid. Value ('' @ JSON_stringify rt v
           @ '') cannot be parsed to JSON'')),
        (''name'', JStr ''ParameterParseJsonError'')]"

section \<open>Parameter resolution\<close>

definition parseParamValue ::
  "runtime \<Rightarrow> SocketControllerExecutor \<Rightarrow> js_value \<Rightarrow> ParamMetadata \<Rightarrow> js_value settled" where
  "parseParamValue rt this v paramMetadata =
     (case (case v of JStr s \<Rightarrow> JSON_parse rt s | _ \<Rightarrow> Some v) of
        None \<Rightarrow> Inl (ParameterParseJsonError rt v)
      | Some parseValue \<Rightarrow>
          if reflectedType paramMetadata \<noteq> ReflectedFunction GlobalObject
             \<and> reflectedType paramMetadata \<noteq> NoReflectedType
             \<and> useClassTransformer this
          then
            let classTransformOptions =
                  js_or (param_classTransformOptions paramMetadata) (plainToClassTransformOptions this);
                inst = plainToClass rt (reflectedType paramMetadata) parseValue classTransformOptions;
                validateInstance =
                  (case param_value paramMetadata of
                     BodyOptions (Some b) \<Rightarrow> b
                   | _ \<Rightarrow> validate this)
            in if validateInstance \<and> class_validate rt inst \<noteq> []
               then Inl (ValidationException (class_validate rt inst))
               else Inr inst
          else Inr parseValue)"

text \<open>
  \<^verbatim>\<open>format instanceof Function && format.name ? format.name
     : format instanceof String ? format : ""\<close>
\<close>

definition formatName :: "reflected_type \<Rightarrow> string" where
  "formatName format =
     (case format of
        ReflectedFunction f \<Rightarrow> (if function_name f \<noteq> [] then function_name f else [])
      | ReflectedStringObject s \<Rightarrow> s
      | NoReflectedType \<Rightarrow> [])"

definition handleParamFormat ::
  "runtime \<Rightarrow> SocketControllerExecutor \<Rightarrow> js_value \<Rightarrow> ParamMetadata \<Rightarrow> js_value settled" where
  "handleParamFormat rt this v param =
     (let format = reflectedType param;
          lower = toLowerCase (formatName format)
      in if lower = ''number'' then
           (case unaryPlus rt v of Inl e \<Rightarrow> Inl e | Inr n \<Rightarrow> Inr (JNum n))
         else if lower = ''string'' then Inr v
         else if lower = ''boolean'' then
           (if v = JStr ''true'' then Inr (JBool True)
            else if v = JStr ''false'' then Inr (JBool False)
            else Inr (JBool (truthy v)))
         else
           let isObjectFormat =
                 ((case format of ReflectedFunction _ \<Rightarrow> True | _ \<Rightarrow> False) \<or> lower = ''object'')
           in if truthy v \<and> isObjectFormat then parseParamValue rt this v param else Inr v)"

definition handleParam ::
  "runtime \<Rightarrow> SocketControllerExecutor \<Rightarrow> ParamMetadata \<Rightarrow> options \<Rightarrow> js_value settled" where
  "handleParam rt this param opts =
     (case (if data opts \<noteq> JNull \<and> data opts \<noteq> JUndefined \<and> data opts \<noteq> JStr []
            then handleParamFormat rt this (data opts) param
            else Inr (data opts)) of
        Inl e \<Rightarrow> Inl e
      | Inr v \<Rightarrow>
          (case transform param of
             Some f \<Rightarrow> f v (socket_object (socket opts))
           | None \<Rightarrow> Inr v))"

text \<open>The last step of \<^verbatim>\<open>handleParam\<close>, on its own:
  \<^verbatim>\<open>if (param.transform) value = param.transform(value, options.socket)\<close>.\<close>

definition applyTransform :: "ParamMetadata \<Rightarrow> options \<Rightarrow> js_value \<Rightarrow> js_value settled" where
  "applyTransform param opts v =
     (case transform param of
        Some f \<Rightarrow> f v (socket_object (socket opts))
      | None \<Rightarrow> Inr v)"

text \<open>
  The property key \<^verbatim>\<open>query[param.value]\<close> reads: a value that is no string is converted
  to one.
\<close>

fun query_key :: "param_value \<Rightarrow> string" where
  "query_key (NameValue s) = s"
| "query_key NoValue = ''undefined''"
| "query_key (BodyOptions _) = ''[object Object]''"

text \<open>
  The arrow function \<^verbatim>\<open>handleAction\<close> maps over the sorted parameters: the six kinds read
  off the connection are plain values (never a rejection, and \<^verbatim>\<open>param.transform\<close> is not
  consulted); every other kind goes to \<^verbatim>\<open>handleParam\<close>.
\<close>

definition paramPromise ::
  "runtime \<Rightarrow> SocketControllerExecutor \<Rightarrow> options \<Rightarrow> ParamMetadata \<Rightarrow> js_value settled" where
  "paramPromise rt this opts param =
     (if param_type param = CONNECTED_SOCKET then Inr (socket_object (socket opts))
      else if param_type param = SOCKET_IO then Inr (io this)
      else if param_type param = SOCKET_QUERY_PARAM
        then Inr (handshake_query (socket opts) (query_key (param_value param)))
      else if param_type param = SOCKET_ID then Inr (socket_id (socket opts))
      else if param_type param = SOCKET_REQUEST then Inr (request (socket opts))
      else if param_type param = SOCKET_ROOMS then Inr (rooms (socket opts))
      else handleParam rt this param opts)"

text \<open>
  \<^verbatim>\<open>Promise.all\<close>. The promises settle in some order, given as the list \<open>order\<close> of their
  positions (positions it leaves out settle afterwards, in list order). The result is the
  reason of the rejection that comes first in that order, or, if there is none, the values
  in the order of the promises, whatever the order in which they settled.
\<close>

definition promise_all :: "nat list \<Rightarrow> 'a settled list \<Rightarrow> 'a list settled" where
  "promise_all order ps =
     (case filter isl (map (\<lambda>i. ps ! i) (filter (\<lambda>i. i < length ps) order) @ ps) of
        r # _ \<Rightarrow> Inl (projl r)
      | [] \<Rightarrow> Inr (map projr ps))"

text \<open>
  What one call of \<^verbatim>\<open>handleAction\<close> leaves behind: the action metadata (the source sorts
  \<^verbatim>\<open>action.params\<close> where it stands), the argument lists the handler was called with, and
  the settled promise it returns.
\<close>

record handled =
  action_after :: ActionMetadata
  handler_calls :: "js_value list list"
  outcome :: "js_value settled"

definition handleAction ::
  "runtime \<Rightarrow> SocketControllerExecutor \<Rightarrow> nat list \<Rightarrow> ActionMetadata \<Rightarrow> options \<Rightarrow> handled" where
  "handleAction rt this order action opts =
     (let sorted_params = sort_key index (params action);
          action' = action\<lparr>params := sorted_params\<rparr>;
          paramsPromises = map (paramPromise rt this opts) sorted_params
      in case promise_all order paramsPromises of
           Inl error \<Rightarrow> \<lparr>action_after = action', handler_calls = [], outcome = Inl error\<rparr>
         | Inr ps \<Rightarrow>
             \<lparr>action_after = action', handler_calls = [ps], outcome = executeAction action ps\<rparr>)"

section \<open>Result handling\<close>

text \<open>
  What a client can observe: \<^verbatim>\<open>socket.emit(event, payload)\<close>, \<^verbatim>\<open>socket.emit(event)\<close>
  (no payload), and a call of the acknowledgment callback.
\<close>

datatype effect = Emit string "js_value option" | Ack js_value

text \<open>\<open>clientCallback\<close> says whether a callback was given (it is \<^verbatim>\<open>null\<close> for connect and
  disconnect actions).\<close>

definition handleSuccessResult ::
  "runtime \<Rightarrow> SocketControllerExecutor \<Rightarrow> js_value \<Rightarrow> ActionMetadata \<Rightarrow> bool \<Rightarrow> effect list" where
  "handleSuccessResult rt this result action clientCallback =
     (if \<not> is_nullish result \<and> emitOnSuccess action \<noteq> None then
        let transformOptions =
              js_or (result_classTransformOptions (the (emitOnSuccess action)))
                (classToPlainTransformOptions this);
            transformedResult =
              (if useClassTransformer this \<and> instanceof_Object result
               then classToPlain rt result transformOptions else result)
        in [Emit (result_value (the (emitOnSuccess action))) (Some transformedResult)]
      else if is_nullish result \<and> emitOnSuccess action \<noteq> None \<and> \<not> skipEmitOnEmptyResult action then
        [Emit (result_value (the (emitOnSuccess action))) None]
      else if \<not> is_nullish result \<and> clientCallback then [Ack result]
      else if is_nullish result \<and> clientCallback then [Ack (JStr ''received'')]
      else [])"

text \<open>\<^verbatim>\<open>actualType.constructor.name === expectedType.name\<close>; a string has no \<^verbatim>\<open>name\<close>.\<close>

definition errorMatchesType :: "expected_type \<Rightarrow> js_value \<Rightarrow> bool" where
  "errorMatchesType expectedType actualType =
     (case expectedType of
        ExpectedFunction f \<Rightarrow> constructor_name actualType = Some (function_name f)
      | ExpectedString _ \<Rightarrow> False)"

fun expected_truthy :: "expected_type option \<Rightarrow> bool" where
  "expected_truthy None = False"
| "expected_truthy (Some (ExpectedFunction _)) = True"
| "expected_truthy (Some (ExpectedString s)) = (s \<noteq> [])"

text \<open>
  \<open>Inl\<close> is what \<^verbatim>\<open>handleFailResult\<close> throws. Its first statement in the branch for a
  present error reads \<^verbatim>\<open>action.emitOnSuccess.classTransformOptions\<close>, which throws a
  TypeError when the action has no emit-on-success policy.
\<close>

definition handleFailResult ::
  "runtime \<Rightarrow> SocketControllerExecutor \<Rightarrow> js_value \<Rightarrow> ActionMetadata \<Rightarrow> effect list settled" where
  "handleFailResult rt this error action =
     (if \<not> is_nullish error \<and> (emitOnFail action \<noteq> None \<or> emitOnFailFor action \<noteq> None) then
        (case emitOnSuccess action of
           None \<Rightarrow> Inl (TypeError ''Cannot read property classTransformOptions of undefined'')
         | Some success \<Rightarrow>
             let transformOptions =
                   js_or (result_classTransformOptions success) (classToPlainTransformOptions this);
                 transformedResult =
                   (if useClassTransformer this \<and> instanceof_Object error
                    then classToPlain rt error transformOptions else error)
             in if emitOnFailFor action \<noteq> None
                   \<and> expected_truthy (errorType (the (emitOnFailFor action)))
                   \<and> errorMatchesType (the (errorType (the (emitOnFailFor action)))) error
                then Inr [Emit (result_value (the (emitOnFailFor action))) (Some transformedResult)]
                else if emitOnFail action \<noteq> None then
                  (if instanceof_Error error then
                     (case object_keys_length transformedResult of
                        None \<Rightarrow> Inl (TypeError ''Cannot convert undefined or null to object'')
                      | Some n \<Rightarrow>
                          Inr [Emit (result_value (the (emitOnFail action)))
                                 (Some (if n = 0 then JStr (obj_toString error) else transformedResult))])
                   else Inr [Emit (result_value (the (emitOnFail action))) (Some transformedResult)])
                else Inr [])
      else if is_nullish error \<and> \<not> skipEmitOnEmptyResult action then
        (if emitOnFail action \<noteq> None then Inr [Emit (result_value (the (emitOnFail action))) None]
         else if emitOnFailFor action \<noteq> None
           then Inr [Emit (result_value (the (emitOnFailFor action))) None]
         else Inr [])
      else Inr [])"

section \<open>Dispatch\<close>

text \<open>
  The chain \<^verbatim>\<open>handleConnection\<close> builds for every action, whatever its type:
  \<^verbatim>\<open>handleAction(...).then(result => handleSuccessResult(...)).catch(error =>
  handleFailResult(...))\<close>. Nothing is chained after the \<^verbatim>\<open>catch\<close>, so what
  \<^verbatim>\<open>handleFailResult\<close> throws is a rejection nobody handles: \<open>unhandled\<close>.
\<close>

record dispatched =
  metadata_after :: ActionMetadata
  handler_called_with :: "js_value list list"
  effects :: "effect list"
  unhandled :: "js_value option"

text \<open>\<^verbatim>\<open>.then(result => this.handleSuccessResult(result, action, socket, fn))\<close>\<close>

definition thenSuccess ::
  "runtime \<Rightarrow> SocketControllerExecutor \<Rightarrow> handled \<Rightarrow> bool \<Rightarrow> js_value \<Rightarrow> dispatched" where
  "thenSuccess rt this h clientCallback result =
     \<lparr>metadata_after = action_after h, handler_called_with = handler_calls h,
      effects = handleSuccessResult rt this result (action_after h) clientCallback,
      unhandled = None\<rparr>"

text \<open>\<^verbatim>\<open>.catch(error => this.handleFailResult(error, action, socket))\<close>\<close>

definition catchFail ::
  "runtime \<Rightarrow> SocketControllerExecutor \<Rightarrow> handled \<Rightarrow> js_value \<Rightarrow> dispatched" where
  "catchFail rt this h error =
     (case handleFailResult rt this error (action_after h) of
        Inr es \<Rightarrow>
          \<lparr>metadata_after = action_after h, handler_called_with = handler_calls h,
           effects = es, unhandled = None\<rparr>
      | Inl thrown \<Rightarrow>
          \<lparr>metadata_after = action_after h, handler_called_with = handler_calls h,
           effects = [], unhandled = Some thrown\<rparr>)"

definition dispatch ::
  "runtime \<Rightarrow> SocketControllerExecutor \<Rightarrow> nat list \<Rightarrow> ActionMetadata \<Rightarrow> options \<Rightarrow> bool
     \<Rightarrow> dispatched" where
  "dispatch rt this order action opts clientCallback =
     (let h = handleAction rt this order action opts
      in case outcome h of
           Inr result \<Rightarrow> thenSuccess rt this h clientCallback result
         | Inl error \<Rightarrow> catchFail rt this h error)"

section \<open>Middlewares\<close>

text \<open>ToNumber of a priority: \<^verbatim>\<open>undefined\<close> is NaN.\<close>

fun priorityNumber :: "js_number option \<Rightarrow> js_number" where
  "priorityNumber None = NaN"
| "priorityNumber (Some n) = n"

text \<open>
  \<^verbatim>\<open>Array.prototype.sort\<close> with a comparator. The language fixes its result where the
  comparator is consistent: the elements in ascending order, those that compare equal in
  their former order. Where it is not, as with \<^verbatim>\<open>a.priority - b.priority\<close> once a priority
  is undefined or NaN (the difference is then NaN, which the sort reads as equal), the order
  is the engine's. The model is an insertion sort: each element in turn is moved to the left
  past the elements before it that the comparator calls greater. \<open>insertion\<close> takes the
  sorted part with its last element first.
\<close>

fun insertion :: "('a \<Rightarrow> 'a \<Rightarrow> js_number) \<Rightarrow> 'a \<Rightarrow> 'a list \<Rightarrow> 'a list" where
  "insertion comparefn element [] = [element]"
| "insertion comparefn element (tmp # earlier) =
     (if js_positive (comparefn tmp element) then tmp # insertion comparefn element earlier
      else element # tmp # earlier)"

definition Array_sort :: "('a \<Rightarrow> 'a \<Rightarrow> js_number) \<Rightarrow> 'a list \<Rightarrow> 'a list" where
  "Array_sort comparefn a =
     rev (foldl (\<lambda>sorted element. insertion comparefn element sorted) [] a)"

text \<open>
  \<^verbatim>\<open>registerMiddlewares\<close>, given what \<^verbatim>\<open>buildMiddlewareMetadata\<close> returned: the middlewares
  whose wrappers \<^verbatim>\<open>io.use\<close> receives, first installed first. The comparator is
  \<^verbatim>\<open>(middleware1, middleware2) => middleware1.priority - middleware2.priority\<close>.
\<close>

definition registerMiddlewares :: "MiddlewareMetadata list \<Rightarrow> MiddlewareMetadata list" where
  "registerMiddlewares middlewares =
     Array_sort
       (\<lambda>middleware1 middleware2.
          js_minus (priorityNumber (priority middleware1)) (priorityNumber (priority middleware2)))
       middlewares"

section \<open>A concrete server\<close>

text \<open>
  Concrete inputs for the closed theorems below, after the sample controller
  \<^verbatim>\<open>MessageController\<close>: its \<^verbatim>\<open>save\<close> action takes the connected socket and a message body
  of class \<^verbatim>\<open>CreateMessageDto\<close>, and declares \<^verbatim>\<open>EmitOnFailFor("save/validation_error",
  () => ValidationException)\<close>, \<^verbatim>\<open>EmitOnFail("save/error")\<close> and
  \<^verbatim>\<open>EmitOnSuccess("save/success")\<close>.
\<close>

definition plain_object :: "(string \<times> js_value) list \<Rightarrow> js_value" where
  "plain_object ps = JObject GlobalObject False ''[object Object]'' ps"

text \<open>
  A small runtime: \<open>JSON_parse\<close> knows two texts, \<open>plainToClass\<close> gives the plain object the
  class as its constructor, \<open>classToPlain\<close> takes it away again, and \<open>class_validate\<close>
  reports one error for each of the properties \<^verbatim>\<open>text\<close> and \<^verbatim>\<open>author\<close> that is missing.
  \<open>objectToNumber\<close> converts an object through its \<^verbatim>\<open>toString()\<close>, and throws for an object
  whose own property \<^verbatim>\<open>toString\<close> hides the method, as in the payload
  \<^verbatim>\<open>{"toString": 1}\<close>; the empty array is 0, and other arrays, which are not used below,
  are taken for NaN.
\<close>

definition sample_runtime :: runtime where
  "sample_runtime =
     \<lparr>JSON_parse = (\<lambda>s. if s = ''{}'' then Some (plain_object [])
                        else if s = ''{\"text\":\"hi\",\"author\":\"me\"}''
                          then Some (plain_object [(''text'', JStr ''hi''), (''author'', JStr ''me'')])
                        else None),
      JSON_stringify = (\<lambda>v. case v of JStr s \<Rightarrow> ''\"'' @ s @ ''\"'' | _ \<Rightarrow> ''null''),
      objectToNumber = (\<lambda>v. case v of
                           JObject c e s ps \<Rightarrow>
                             if ''toString'' \<in> set (map fst ps)
                             then Inl (TypeError ''Cannot convert object to primitive value'')
                             else Inr (StringToNumber s)
                         | JArray [] \<Rightarrow> Inr (Finite 0)
                         | _ \<Rightarrow> Inr NaN),
      plainToClass = (\<lambda>t v opts. case (t, v) of
                         (ReflectedFunction f, JObject c e s ps) \<Rightarrow> JObject f e s ps
                       | _ \<Rightarrow> v),
      classToPlain = (\<lambda>v opts. case v of JObject c e s ps \<Rightarrow> plain_object ps | _ \<Rightarrow> v),
      class_validate = (\<lambda>v. case v of
                           JObject c e s ps \<Rightarrow>
                             map (\<lambda>k. plain_object [(''property'', JStr k)])
                               (filter (\<lambda>k. k \<notin> set (map fst ps)) [''text'', ''author''])
                         | _ \<Rightarrow> [])\<rparr>"

definition sample_executor :: SocketControllerExecutor where
  "sample_executor =
     \<lparr>useClassTransformer = True, classToPlainTransformOptions = JUndefined,
      plainToClassTransformOptions = JUndefined, validate = True,
      io = JObject (Function ''Server'') False ''[object Object]'' []\<rparr>"

definition sample_socket :: socket where
  "sample_socket =
     \<lparr>socket_object = JObject (Function ''Socket'') False ''[object Object]'' [(''id'', JStr ''s1'')],
      socket_id = JStr ''s1'',
      handshake_query = (\<lambda>k. if k = ''token'' then JStr ''abc'' else JUndefined),
      request = JObject (Function ''IncomingMessage'') False ''[object Object]'' [],
      rooms = plain_object []\<rparr>"

definition socket_param :: ParamMetadata where
  "socket_param =
     \<lparr>index = 0, param_type = CONNECTED_SOCKET, reflectedType = ReflectedFunction GlobalObject,
      param_value = NoValue, transform = None, param_classTransformOptions = JUndefined\<rparr>"

definition body_param :: ParamMetadata where
  "body_param =
     \<lparr>index = 1, param_type = SOCKET_BODY,
      reflectedType = ReflectedFunction (Function ''CreateMessageDto''),
      param_value = NoValue, transform = None, param_classTransformOptions = JUndefined\<rparr>"

text \<open>The handler of \<^verbatim>\<open>save\<close>: it returns a \<^verbatim>\<open>Message\<close> with the body's properties and an id.\<close>

definition save_handler :: "js_value list \<Rightarrow> js_value settled" where
  "save_handler args =
     (case args of
        [s, JObject c e str ps] \<Rightarrow>
          Inr (JObject (Function ''Message'') False ''[object Object]'' (ps @ [(''id'', JNum (Finite 1))]))
      | _ \<Rightarrow> Inl (TypeError ''Cannot set property id of undefined''))"

definition save_action :: ActionMetadata where
  "save_action =
     \<lparr>action_type = MESSAGE, name = ''save'', params = [body_param, socket_param],
      emitOnSuccess = Some \<lparr>result_value = ''save/success'', result_classTransformOptions = JUndefined,
                            errorTypeReference = NoTypeReference\<rparr>,
      emitOnFail = Some \<lparr>result_value = ''save/error'', result_classTransformOptions = JUndefined,
                         errorTypeReference = NoTypeReference\<rparr>,
      emitOnFailFor = Some \<lparr>result_value = ''save/validation_error'',
                            result_classTransformOptions = JUndefined,
                            errorTypeReference = TypeThunk (\<lambda>_. Function ''ValidationException'')\<rparr>,
      skipEmitOnEmptyResult = False, executeAction = save_handler\<rparr>"

text \<open>More inputs: a transform, parameters of other kinds, a handler that throws, an action
  whose only policy is emit-on-fail, one whose emit-on-fail-for names \<^verbatim>\<open>Error\<close>, two
  middlewares with priorities, and three of which the second was given no priority.\<close>

definition mark_transform :: "js_value \<Rightarrow> js_value \<Rightarrow> js_value settled" where
  "mark_transform v s = Inr (JArray [JStr ''transformed'', v])"

definition id_param :: ParamMetadata where
  "id_param =
     \<lparr>index = 0, param_type = SOCKET_ID, reflectedType = ReflectedFunction (Function ''String''),
      param_value = NoValue, transform = Some mark_transform,
      param_classTransformOptions = JUndefined\<rparr>"

definition number_param :: ParamMetadata where
  "number_param =
     \<lparr>index = 0, param_type = SOCKET_BODY, reflectedType = ReflectedFunction (Function ''Number''),
      param_value = NoValue, transform = Some mark_transform,
      param_classTransformOptions = JUndefined\<rparr>"

definition count_param :: ParamMetadata where
  "count_param =
     \<lparr>index = 0, param_type = SOCKET_BODY, reflectedType = ReflectedFunction (Function ''Number''),
      param_value = NoValue, transform = None,
      param_classTransformOptions = JUndefined\<rparr>"

definition boolean_param :: ParamMetadata where
  "boolean_param =
     \<lparr>index = 0, param_type = SOCKET_BODY, reflectedType = ReflectedFunction (Function ''Boolean''),
      param_value = NoValue, transform = None,
      param_classTransformOptions = JUndefined\<rparr>"

definition message :: "js_value \<Rightarrow> options" where
  "message payload = \<lparr>socket = sample_socket, data = payload\<rparr>"

definition boom :: js_value where
  "boom = JObject (Function ''Error'') True ''Error: boom'' []"

definition throwing_handler :: "js_value list \<Rightarrow> js_value settled" where
  "throwing_handler args = Inl boom"

definition fail_only_action :: ActionMetadata where
  "fail_only_action =
     \<lparr>action_type = MESSAGE, name = ''remove'', params = [socket_param],
      emitOnSuccess = None,
      emitOnFail = Some \<lparr>result_value = ''remove/error'', result_classTransformOptions = JUndefined,
                         errorTypeReference = NoTypeReference\<rparr>,
      emitOnFailFor = None,
      skipEmitOnEmptyResult = False, executeAction = throwing_handler\<rparr>"

definition any_error_action :: ActionMetadata where
  "any_error_action =
     save_action\<lparr>emitOnFailFor :=
       Some \<lparr>result_value = ''save/any_error'', result_classTransformOptions = JUndefined,
             errorTypeReference = TypeItself (Function ''Error'')\<rparr>\<rparr>"

definition sample_middlewares :: "MiddlewareMetadata list" where
  "sample_middlewares =
     [\<lparr>priority = Some (Finite 2), middleware_instance = JStr ''compression''\<rparr>,
      \<lparr>priority = Some (Finite 1), middleware_instance = JStr ''authentication''\<rparr>]"

definition unordered_middlewares :: "MiddlewareMetadata list" where
  "unordered_middlewares =
     [\<lparr>priority = Some (Finite 2), middleware_instance = JStr ''compression''\<rparr>,
      \<lparr>priority = None, middleware_instance = JStr ''logging''\<rparr>,
      \<lparr>priority = Some (Finite 1), middleware_instance = JStr ''authentication''\<rparr>]"

section \<open>Facts about the model\<close>

subsection \<open>Promise.all and handleAction\<close>

lemma scheduled_subset:
  "set (map (\<lambda>i. ps ! i) (filter (\<lambda>i. i < length ps) order)) \<subseteq> set ps"
  by auto

lemma promise_all_Inr:
  "(promise_all order ps = Inr vs) = ((\<forall>p \<in> set ps. \<not> isl p) \<and> vs = map projr ps)"
proof -
  let ?c = "filter isl (map (\<lambda>i. ps ! i) (filter (\<lambda>i. i < length ps) order) @ ps)"
  have "(?c = []) = (\<forall>p \<in> set ps. \<not> isl p)"
    using scheduled_subset [of ps order] by (auto simp: filter_empty_conv)
  then show ?thesis
    by (cases ?c) (auto simp: promise_all_def)
qed

lemma promise_all_Inl:
  assumes "promise_all order ps = Inl e"
  shows "Inl e \<in> set ps"
proof -
  let ?c = "filter isl (map (\<lambda>i. ps ! i) (filter (\<lambda>i. i < length ps) order) @ ps)"
  from assms obtain r rs where c: "?c = r # rs" and e: "e = projl r"
    by (cases ?c) (auto simp: promise_all_def)
  have "r \<in> set ?c" using c by simp
  then have "isl r" and "r \<in> set ps"
    using scheduled_subset [of ps order] by auto
  then show ?thesis using e by (cases r) auto
qed

lemma promise_all_rejects:
  assumes "p \<in> set ps" "isl p"
  shows "\<exists>e. promise_all order ps = Inl e"
proof (cases "promise_all order ps")
  case (Inr vs)
  then show ?thesis using assms by (auto simp: promise_all_Inr)
qed auto

lemma map_projr_Inr:
  "\<forall>p \<in> set ps. \<not> isl p \<Longrightarrow> map Inr (map projr ps) = ps"
  by (induction ps) auto

lemma handleAction_after:
  "action_after (handleAction rt this order action opts)
     = action\<lparr>params := sort_key index (params action)\<rparr>"
  by (simp add: handleAction_def Let_def split: sum.splits)

lemma handleAction_called:
  assumes "handler_calls (handleAction rt this order action opts) = [args]"
  shows "map (paramPromise rt this opts) (sort_key index (params action)) = map Inr args"
proof -
  from assms obtain vs where
    pa: "promise_all order (map (paramPromise rt this opts) (sort_key index (params action))) = Inr vs"
    and "vs = args"
    by (auto simp: handleAction_def Let_def split: sum.splits)
  then show ?thesis
    using map_projr_Inr [of "map (paramPromise rt this opts) (sort_key index (params action))"]
    by (simp add: promise_all_Inr)
qed

lemma handleAction_rejected:
  assumes "p \<in> set (params action)" "isl (paramPromise rt this opts p)"
  shows "\<exists>e q. q \<in> set (params action) \<and> paramPromise rt this opts q = Inl e
          \<and> handleAction rt this order action opts =
              \<lparr>action_after = action\<lparr>params := sort_key index (params action)\<rparr>,
               handler_calls = [], outcome = Inl e\<rparr>"
proof -
  let ?ps = "map (paramPromise rt this opts) (sort_key index (params action))"
  have "paramPromise rt this opts p \<in> set ?ps" using assms(1) by simp
  then obtain e where e: "promise_all order ?ps = Inl e"
    using promise_all_rejects assms(2) by blast
  then have "Inl e \<in> set ?ps" by (rule promise_all_Inl)
  then obtain q where "q \<in> set (params action)" "paramPromise rt this opts q = Inl e"
    by auto
  then show ?thesis using e by (auto simp: handleAction_def Let_def)
qed

lemma handler_calls_any_order:
  "handler_calls (handleAction rt this order action opts)
     = handler_calls (handleAction rt this order' action opts)"
proof -
  let ?ps = "map (paramPromise rt this opts) (sort_key index (params action))"
  show ?thesis
  proof (cases "\<forall>p \<in> set ?ps. \<not> isl p")
    case True
    then have "promise_all order ?ps = Inr (map projr ?ps)"
      and "promise_all order' ?ps = Inr (map projr ?ps)"
      by (simp_all only: promise_all_Inr simp_thms)
    then show ?thesis by (simp add: handleAction_def Let_def)
  next
    case False
    then obtain p where "p \<in> set ?ps" "isl p" by blast
    then obtain e e' where "promise_all order ?ps = Inl e" "promise_all order' ?ps = Inl e'"
      using promise_all_rejects by blast
    then show ?thesis by (simp add: handleAction_def Let_def)
  qed
qed

lemma sorted_distinct_strict:
  "sorted (xs :: nat list) \<Longrightarrow> distinct xs \<Longrightarrow> sorted_wrt (<) xs"
  by (induction xs) (auto simp: less_le)

lemma sort_key_sorted_id: "sorted (map f xs) \<Longrightarrow> sort_key f xs = xs"
  by (induction xs) (auto simp: insort_is_Cons)

subsection \<open>Dispatch\<close>

lemma dispatch_rejected:
  "outcome (handleAction rt this order action opts) = Inl e \<Longrightarrow>
   dispatch rt this order action opts cb
     = catchFail rt this (handleAction rt this order action opts) e"
  by (simp add: dispatch_def Let_def)

lemma dispatch_metadata:
  "metadata_after (dispatch rt this order action opts cb)
     = action\<lparr>params := sort_key index (params action)\<rparr>"
  by (simp add: dispatch_def Let_def thenSuccess_def catchFail_def handleAction_after
           split: sum.splits)

lemma metadata_unchanged_iff:
  "(metadata_after (dispatch rt this order action opts cb) = action)
     = sorted (map index (params action))"
proof
  assume "metadata_after (dispatch rt this order action opts cb) = action"
  then have "params (action\<lparr>params := sort_key index (params action)\<rparr>) = params action"
    by (simp add: dispatch_metadata)
  then have "sort_key index (params action) = params action" by simp
  then show "sorted (map index (params action))"
    by (metis sorted_sort_key)
next
  assume "sorted (map index (params action))"
  then show "metadata_after (dispatch rt this order action opts cb) = action"
    by (simp add: dispatch_metadata sort_key_sorted_id)
qed

subsection \<open>Parameter formats\<close>

lemma formatName_function: "formatName (ReflectedFunction f) = function_name f"
  by (simp add: formatName_def)

lemma truthy_not_bypassed: "truthy v \<Longrightarrow> v \<noteq> JNull \<and> v \<noteq> JUndefined \<and> v \<noteq> JStr []"
  by (cases v) auto

lemma parseParamValue_invalid:
  assumes "reflectedType p = ReflectedFunction f" "f \<noteq> GlobalObject"
    and "useClassTransformer this"
    and "(case param_value p of BodyOptions (Some b) \<Rightarrow> b | _ \<Rightarrow> validate this)"
    and "(case v of JStr s \<Rightarrow> JSON_parse rt s | _ \<Rightarrow> Some v) = Some plain"
    and "class_validate rt (plainToClass rt (reflectedType p) plain
           (js_or (param_classTransformOptions p) (plainToClassTransformOptions this))) = errors"
    and "errors \<noteq> []"
  shows "parseParamValue rt this v p = Inl (ValidationException errors)"
  using assms by (simp add: parseParamValue_def Let_def)

lemma parseParamValue_ignores_transform:
  "parseParamValue rt this v (p\<lparr>transform := t\<rparr>) = parseParamValue rt this v p"
  by (simp add: parseParamValue_def Let_def split: option.splits)

lemma handleParamFormat_ignores_transform:
  "handleParamFormat rt this v (p\<lparr>transform := t\<rparr>) = handleParamFormat rt this v p"
  by (auto simp: handleParamFormat_def parseParamValue_ignores_transform Let_def)

lemma handleParamFormat_number:
  assumes "toLowerCase (formatName (reflectedType p)) = ''number''"
    and "primitiveToNumber v = Some n"
  shows "handleParamFormat rt this v p = Inr (JNum n)"
  using assms by (simp add: handleParamFormat_def unaryPlus_def)

lemma handleParamFormat_boolean:
  assumes "toLowerCase (formatName (reflectedType p)) = ''boolean''"
  shows "handleParamFormat rt this v p =
           Inr (JBool (if v = JStr ''true'' then True
                       else if v = JStr ''false'' then False else truthy v))"
  using assms by (simp add: handleParamFormat_def)

lemma StringToNumber_42: "StringToNumber ''42'' = Finite 42"
  by code_simp

lemma StringToNumber_abc: "StringToNumber ''abc'' = NaN"
  by code_simp

text \<open>A string that, once trimmed, starts with a character no numeric literal starts with
  is not a number.\<close>

lemma digitValue_zero: "digitValue CHR ''0'' = 0"
  by (simp add: digitValue_def)

lemma StringToNumber_non_numeric_start:
  assumes "trim s = c # u" "10 \<le> digitValue c" "c \<notin> set ''+-.I''"
  shows "StringToNumber s = NaN"
proof -
  have c0: "c \<noteq> CHR ''0''" using assms(2) digitValue_zero by auto
  have nd: "NonDecimalIntegerLiteral (c # u) = None"
    using c0 by (simp add: NonDecimalIntegerLiteral_def split: list.splits)
  have m: "DecimalMantissa (takeWhile (\<lambda>c. c \<noteq> CHR ''e'' \<and> c \<noteq> CHR ''E'') (c # u)) = None"
    using assms(2,3) by (simp add: DecimalMantissa_def)
  have "StrUnsignedDecimalLiteral (c # u) = None"
    using assms(3) m by (simp add: StrUnsignedDecimalLiteral_def Let_def)
  then have "StrDecimalLiteral (c # u) = None"
    using assms(3) by (simp add: StrDecimalLiteral_def)
  then show ?thesis using nd assms(1) by (simp add: StringToNumber_def)
qed

text \<open>\<^verbatim>\<open>handleParam\<close> is the coercion followed by the transform.\<close>

lemma handleParam_applyTransform:
  "handleParam rt this p opts =
     (case (if data opts \<noteq> JNull \<and> data opts \<noteq> JUndefined \<and> data opts \<noteq> JStr []
            then handleParamFormat rt this (data opts) p
            else Inr (data opts)) of
        Inl e \<Rightarrow> Inl e
      | Inr v \<Rightarrow> applyTransform p opts v)"
  by (simp add: handleParam_def applyTransform_def split: sum.splits)

lemma handleParam_number_primitive:
  assumes "toLowerCase (formatName (reflectedType p)) = ''number''"
    and "data opts \<noteq> JNull" "data opts \<noteq> JUndefined" "data opts \<noteq> JStr []"
    and "primitiveToNumber (data opts) = Some n"
  shows "handleParam rt this p opts = applyTransform p opts (JNum n)"
  using assms by (simp add: handleParam_applyTransform handleParamFormat_number)

lemma handleParam_number_object:
  assumes "toLowerCase (formatName (reflectedType p)) = ''number''"
    and "primitiveToNumber (data opts) = None"
  shows "handleParam rt this p opts =
           (case objectToNumber rt (data opts) of
              Inl e \<Rightarrow> Inl e
            | Inr k \<Rightarrow> applyTransform p opts (JNum k))"
proof -
  have "data opts \<noteq> JNull \<and> data opts \<noteq> JUndefined \<and> data opts \<noteq> JStr []"
    using assms(2) by (cases "data opts") auto
  then show ?thesis
    using assms
    by (simp add: handleParam_applyTransform handleParamFormat_def unaryPlus_def split: sum.splits)
qed

lemma handleParam_boolean:
  assumes "toLowerCase (formatName (reflectedType p)) = ''boolean''"
    and "data opts \<noteq> JNull" "data opts \<noteq> JUndefined" "data opts \<noteq> JStr []"
  shows "handleParam rt this p opts =
           applyTransform p opts
             (JBool (if data opts = JStr ''true'' then True
                     else if data opts = JStr ''false'' then False else truthy (data opts)))"
  using assms by (simp add: handleParam_applyTransform handleParamFormat_boolean)

lemma handleParam_bypassed:
  assumes "data opts = JNull \<or> data opts = JUndefined \<or> data opts = JStr []"
  shows "handleParam rt this p opts = applyTransform p opts (data opts)"
  using assms by (auto simp: handleParam_applyTransform)

lemma round_to_double_not_NaN: "round_to_double q \<noteq> NaN"
  by (simp add: round_to_double_def Let_def)

lemma RoundMVResult_NaN: "(RoundMVResult n = NaN) = (n = NaN)"
  by (cases n) (simp_all add: round_to_double_not_NaN)

lemma StrUnsignedDecimalLiteral_not_NaN: "StrUnsignedDecimalLiteral s \<noteq> Some NaN"
  by (auto simp: StrUnsignedDecimalLiteral_def Let_def split: option.splits list.splits)

lemma StrDecimalLiteral_not_NaN: "StrDecimalLiteral s \<noteq> Some NaN"
proof -
  have "negate n \<noteq> NaN" if "n \<noteq> NaN" for n using that by (cases n) auto
  then show ?thesis
    using StrUnsignedDecimalLiteral_not_NaN
    by (auto simp: StrDecimalLiteral_def split: list.splits) (metis)
qed

lemma NonDecimalIntegerLiteral_not_NaN: "NonDecimalIntegerLiteral s \<noteq> Some NaN"
  by (auto simp: NonDecimalIntegerLiteral_def Let_def split: list.splits if_splits)

lemma StringToNumber_NaN_iff:
  "(StringToNumber s = NaN) =
     (trim s \<noteq> [] \<and> NonDecimalIntegerLiteral (trim s) = None \<and> StrDecimalLiteral (trim s) = None)"
  using StrDecimalLiteral_not_NaN [of "trim s"] NonDecimalIntegerLiteral_not_NaN [of "trim s"]
  by (auto simp: StringToNumber_def Let_def RoundMVResult_NaN split: option.splits)

lemma StringToNumber_blank: "trim s = [] \<Longrightarrow> StringToNumber s = Finite 0"
  by (simp add: StringToNumber_def)

subsection \<open>Doubles\<close>

lemma floor_log2_bounds:
  assumes "0 < a"
  shows "2 powi (floor_log2 a) \<le> a \<and> a < 2 powi (floor_log2 a + 1)"
proof -
  obtain p d where pd: "quotient_of a = (p, d)" by (cases "quotient_of a")
  have d: "0 < d" using pd quotient_of_denom_pos by blast
  have a: "a = of_int p / of_int d" using pd quotient_of_div by blast
  have p: "0 < p" using assms a d by (simp add: zero_less_divide_iff)
  let ?bp = "bitlen p" and ?bd = "bitlen d"
  have bp: "2 ^ nat (?bp - 1) \<le> p" "p < 2 ^ nat ?bp" using bitlen_bounds [OF p] by auto
  have bd: "2 ^ nat (?bd - 1) \<le> d" "d < 2 ^ nat ?bd" using bitlen_bounds [OF d] by auto
  have bp1: "1 \<le> ?bp" using p bitlen_nonneg [of "p div 2"] by (subst compute_bitlen) simp
  have bd1: "1 \<le> ?bd" using d bitlen_nonneg [of "d div 2"] by (subst compute_bitlen) simp
  have P1: "(2::rat) powi (?bp - 1) \<le> of_int p"
    using bp(1) bp1 of_int_le_iff [of "2 ^ nat (?bp - 1)" p, where ?'a = rat]
    by (simp add: power_int_def)
  have P2: "of_int p < (2::rat) powi ?bp"
    using bp(2) bp1 of_int_less_iff [of p "2 ^ nat ?bp", where ?'a = rat]
    by (simp add: power_int_def)
  have D1: "(2::rat) powi (?bd - 1) \<le> of_int d"
    using bd(1) bd1 of_int_le_iff [of "2 ^ nat (?bd - 1)" d, where ?'a = rat]
    by (simp add: power_int_def)
  have D2: "of_int d < (2::rat) powi ?bd"
    using bd(2) bd1 of_int_less_iff [of d "2 ^ nat ?bd", where ?'a = rat]
    by (simp add: power_int_def)
  have pos: "0 < (2::rat) powi k" for k by (simp add: zero_less_power_int)
  have low: "(2::rat) powi (?bp - ?bd - 1) \<le> a"
  proof -
    have "(2::rat) powi (?bp - ?bd - 1) = 2 powi (?bp - 1 - ?bd)"
      by (rule arg_cong [of _ _ "\<lambda>k. (2::rat) powi k"]) simp
    also have "\<dots> = 2 powi (?bp - 1) / 2 powi ?bd"
      by (rule power_int_diff) simp
    also have "\<dots> \<le> of_int p / of_int d"
      using P1 D2 d p pos by (intro frac_le) (auto simp: less_imp_le)
    finally show ?thesis using a by simp
  qed
  have up: "a < (2::rat) powi (?bp - ?bd + 1)"
  proof -
    have "of_int p / of_int d < (2::rat) powi ?bp / 2 powi (?bd - 1)"
      using P2 D1 d p pos by (intro frac_less) (auto simp: less_imp_le)
    also have "\<dots> = 2 powi (?bp - (?bd - 1))"
      by (rule power_int_diff [symmetric]) simp
    also have "\<dots> = 2 powi (?bp - ?bd + 1)"
      by (rule arg_cong [of _ _ "\<lambda>k. (2::rat) powi k"]) simp
    finally show ?thesis using a by simp
  qed
  show ?thesis
    using low up pd by (auto simp: floor_log2_def Let_def)
qed

lemma round_half_even_bounds:
  "\<lfloor>x\<rfloor> \<le> round_half_even x \<and> round_half_even x \<le> \<lfloor>x\<rfloor> + 1"
  by (simp add: round_half_even_def Let_def)

lemma round_half_even_ge:
  "of_int n \<le> x \<Longrightarrow> n \<le> round_half_even x"
  using round_half_even_bounds [of x] by (meson le_floor_iff order_trans)

lemma round_half_even_le:
  "x \<le> of_int n \<Longrightarrow> n \<ge> round_half_even x"
proof (cases "x = of_int n")
  case True
  then show ?thesis by (simp add: round_half_even_def Let_def)
next
  case False
  assume "x \<le> of_int n"
  with False have "x < of_int n" by simp
  then have "\<lfloor>x\<rfloor> < n" by (simp add: floor_less_iff)
  then show ?thesis using round_half_even_bounds [of x] by linarith
qed

lemma powi_pos: "0 < (2::rat) powi k"
  by (simp add: zero_less_power_int)

lemma powi_mono: "k \<le> l \<Longrightarrow> (2::rat) powi k \<le> 2 powi l"
  by (simp add: power_int_increasing)

lemma ulp_le:
  assumes "2 powi (- 1074) \<le> q"
  shows "2 powi (max (floor_log2 q) (- 1022) - 52) \<le> q"
proof (cases "floor_log2 q \<le> - 1022")
  case True
  then have "max (floor_log2 q) (- 1022) - 52 = - 1074" by simp
  then show ?thesis using assms by simp
next
  case False
  have q: "0 < q" using assms powi_pos [of "- 1074"] by linarith
  have "(2::rat) powi (floor_log2 q - 52) \<le> 2 powi (floor_log2 q)"
    by (rule powi_mono) simp
  also have "\<dots> \<le> q" using floor_log2_bounds [OF q] by simp
  finally show ?thesis using False by (simp add: max_def)
qed

lemma round_to_double_positive:
  assumes "2 powi (- 1074) \<le> q"
  shows "js_positive (round_to_double q)"
proof -
  have q: "0 < q" using assms powi_pos [of "- 1074"] by linarith
  let ?ulp = "(2::rat) powi (max (floor_log2 q) (- 1022) - 52)"
  have "1 \<le> q / ?ulp" using ulp_le [OF assms] powi_pos [of "max (floor_log2 q) (- 1022) - 52"]
    by (simp add: le_divide_eq)
  then have "1 \<le> round_half_even (q / ?ulp)"
    using round_half_even_ge [of 1 "q / ?ulp"] by simp
  then have "0 < of_int (round_half_even (q / ?ulp)) * ?ulp"
    using powi_pos [of "max (floor_log2 q) (- 1022) - 52"] by (simp add: zero_less_mult_iff)
  then show ?thesis using q by (simp add: round_to_double_def Let_def)
qed

lemma round_to_double_not_positive:
  assumes "q \<le> 0"
  shows "\<not> js_positive (round_to_double q)"
proof (cases "q = 0")
  case True
  then show ?thesis by (simp add: round_to_double_def)
next
  case False
  then have q: "q < 0" using assms by simp
  let ?ulp = "(2::rat) powi (max (floor_log2 \<bar>q\<bar>) (- 1022) - 52)"
  have "0 \<le> \<bar>q\<bar> / ?ulp" using powi_pos [of "max (floor_log2 \<bar>q\<bar>) (- 1022) - 52"]
    by simp
  then have "0 \<le> round_half_even (\<bar>q\<bar> / ?ulp)"
    using round_half_even_ge [of 0 "\<bar>q\<bar> / ?ulp"] by simp
  then have "0 \<le> of_int (round_half_even (\<bar>q\<bar> / ?ulp)) * ?ulp"
    using powi_pos [of "max (floor_log2 \<bar>q\<bar>) (- 1022) - 52"] by simp
  then show ?thesis using q by (simp add: round_to_double_def Let_def)
qed

lemma double_multiple:
  assumes "round_to_double q = Finite q"
  shows "\<exists>k::int. q = of_int k * 2 powi (- 1074)"
proof (cases "q = 0")
  case True
  then show ?thesis by (intro exI [of _ 0]) simp
next
  case False
  let ?e = "max (floor_log2 \<bar>q\<bar>) (- 1022)"
  let ?m = "round_half_even (\<bar>q\<bar> / 2 powi (?e - 52))"
  have e: "0 \<le> ?e + 1022" by simp
  have "(2::rat) powi (?e - 52) = 2 powi (?e + 1022 + (- 1074))"
    by (rule arg_cong [of _ _ "\<lambda>k. (2::rat) powi k"]) simp
  also have "\<dots> = 2 powi (?e + 1022) * 2 powi (- 1074)"
    by (rule power_int_add) simp
  also have "(2::rat) powi (?e + 1022) = of_int (2 ^ nat (?e + 1022))"
    using e by (simp add: power_int_def)
  finally have u: "(2::rat) powi (?e - 52) = of_int (2 ^ nat (?e + 1022)) * 2 powi (- 1074)" .
  from assms False have "q = of_int ?m * 2 powi (?e - 52) \<or> q = - (of_int ?m * 2 powi (?e - 52))"
    by (auto simp: round_to_double_def Let_def split: if_splits)
  then show ?thesis
  proof
    assume "q = of_int ?m * 2 powi (?e - 52)"
    then have "q = of_int (?m * 2 ^ nat (?e + 1022)) * 2 powi (- 1074)"
      by (simp only: u of_int_mult mult.assoc)
    then show ?thesis by blast
  next
    assume "q = - (of_int ?m * 2 powi (?e - 52))"
    then have "q = of_int (- (?m * 2 ^ nat (?e + 1022))) * 2 powi (- 1074)"
      by (simp only: u of_int_mult of_int_minus mult.assoc mult_minus_left)
    then show ?thesis by blast
  qed
qed

lemma double_difference_positive:
  assumes "round_to_double a = Finite a" "round_to_double b = Finite b"
  shows "js_positive (round_to_double (a - b)) = (b < a)"
proof (cases "b < a")
  case True
  obtain ka kb :: int where k: "a = of_int ka * 2 powi (- 1074)" "b = of_int kb * 2 powi (- 1074)"
    using double_multiple assms by blast
  have "of_int kb * (2::rat) powi (- 1074) < of_int ka * 2 powi (- 1074)"
    using True k by simp
  then have "kb < ka" using powi_pos [of "- 1074"] by (simp add: mult_less_cancel_right)
  then have "1 \<le> ka - kb" by simp
  then have "(1::rat) \<le> of_int (ka - kb)" by (metis of_int_1_le_iff)
  then have "1 * (2::rat) powi (- 1074) \<le> of_int (ka - kb) * 2 powi (- 1074)"
    using powi_pos [of "- 1074"] by (intro mult_right_mono) auto
  then have "(2::rat) powi (- 1074) \<le> a - b"
    using k by (simp add: algebra_simps)
  then show ?thesis using True round_to_double_positive by simp
next
  case False
  then have "a - b \<le> 0" by simp
  then show ?thesis using False round_to_double_not_positive by simp
qed

lemma compare_positive_iff:
  assumes "comparable x" "comparable y"
  shows "js_positive (js_minus x y) = js_less y x"
  using assms
  by (cases x; cases y) (auto simp: comparable_def double_difference_positive)

lemma js_less_trans_not:
  assumes "x \<noteq> NaN" "y \<noteq> NaN" "z \<noteq> NaN" "\<not> js_less x y" "\<not> js_less y z"
  shows "\<not> js_less x z"
  using assms by (cases x; cases y; cases z) auto

lemma powi_split: "(2::rat) powi (k + l) = 2 powi k * 2 powi l"
  by (rule power_int_add) simp

lemma powi_nat: "0 \<le> k \<Longrightarrow> (2::rat) powi k = of_int (2 ^ nat k)"
  by (simp add: power_int_def)

lemma round_to_double_overflow:
  fixes a :: rat
  assumes "0 < a"
  defines "e \<equiv> max (floor_log2 a) (- 1022)"
  defines "m \<equiv> round_half_even (a / 2 powi (e - 52))"
  shows "(1024 \<le> e \<or> (e = 1023 \<and> 2 ^ 53 \<le> m)) = ((2::rat) powi 1024 \<le> of_int m * 2 powi (e - 52))"
proof -
  let ?ulp = "(2::rat) powi (e - 52)"
  have ulp: "0 < ?ulp" by (rule powi_pos)
  have e_split: "(2::rat) powi e = of_int (2 ^ 52) * ?ulp"
  proof -
    have "(2::rat) powi e = 2 powi (52 + (e - 52))"
      by (rule arg_cong [of _ _ "\<lambda>k. (2::rat) powi k"]) simp
    also have "\<dots> = 2 powi 52 * ?ulp" by (rule powi_split)
    finally show ?thesis by simp
  qed
  have e1_split: "(2::rat) powi (e + 1) = of_int (2 ^ 53) * ?ulp"
  proof -
    have "(2::rat) powi (e + 1) = 2 powi (53 + (e - 52))"
      by (rule arg_cong [of _ _ "\<lambda>k. (2::rat) powi k"]) simp
    also have "\<dots> = 2 powi 53 * ?ulp" by (rule powi_split)
    finally show ?thesis by simp
  qed
  have upper: "of_int m * ?ulp \<le> 2 powi (e + 1)"
  proof -
    have "a < 2 powi (floor_log2 a + 1)" using floor_log2_bounds [OF assms(1)] by simp
    also have "\<dots> \<le> 2 powi (e + 1)" unfolding e_def by (rule powi_mono) simp
    finally have "a \<le> of_int (2 ^ 53) * ?ulp" unfolding e1_split by simp
    then have "a / ?ulp \<le> of_int (2 ^ 53)" using ulp by (simp add: divide_le_eq)
    then have "m \<le> 2 ^ 53" unfolding m_def by (rule round_half_even_le)
    then have "(of_int m :: rat) \<le> of_int (2 ^ 53)" by (simp only: of_int_le_iff)
    then have "of_int m * ?ulp \<le> of_int (2 ^ 53) * ?ulp"
      using ulp by (intro mult_right_mono) auto
    then show ?thesis unfolding e1_split .
  qed
  consider "1024 \<le> e" | "e = 1023" | "e \<le> 1022" by linarith
  then show ?thesis
  proof cases
    case 1
    then have fl: "e = floor_log2 a" unfolding e_def by (simp add: max_def split: if_splits)
    have "of_int (2 ^ 52) * ?ulp \<le> a"
      using floor_log2_bounds [OF assms(1)] fl e_split by simp
    then have "of_int (2 ^ 52) \<le> a / ?ulp" using ulp by (simp add: le_divide_eq)
    then have "2 ^ 52 \<le> m" unfolding m_def by (rule round_half_even_ge)
    then have "(of_int (2 ^ 52) :: rat) \<le> of_int m" by (simp only: of_int_le_iff)
    then have "of_int (2 ^ 52) * ?ulp \<le> of_int m * ?ulp"
      using ulp by (intro mult_right_mono) auto
    then have "(2::rat) powi e \<le> of_int m * ?ulp" unfolding e_split .
    moreover have "(2::rat) powi 1024 \<le> 2 powi e" using 1 by (rule powi_mono)
    ultimately have "(2::rat) powi 1024 \<le> of_int m * ?ulp" by (rule order_trans [rotated])
    then show ?thesis using 1 by blast
  next
    case 2
    have "e + 1 = 1024" using 2 by simp
    then have "(2::rat) powi 1024 = of_int (2 ^ 53) * ?ulp"
      using e1_split by (simp only:)
    moreover have "(of_int (2 ^ 53) * ?ulp \<le> of_int m * ?ulp) = ((of_int (2 ^ 53) :: rat) \<le> of_int m)"
      using ulp by (rule mult_le_cancel_right_pos)
    moreover have "((of_int (2 ^ 53) :: rat) \<le> of_int m) = (2 ^ 53 \<le> m)"
      by (simp only: of_int_le_iff)
    ultimately have "((2::rat) powi 1024 \<le> of_int m * ?ulp) = (2 ^ 53 \<le> m)" by (simp only:)
    then show ?thesis using 2 by auto
  next
    case 3
    then have "(2::rat) powi (e + 1) \<le> 2 powi 1023" by (intro powi_mono) simp
    moreover have "(2::rat) powi 1023 < 2 powi 1024"
      by (rule power_int_strict_increasing) simp_all
    ultimately have "of_int m * ?ulp < 2 powi 1024" using upper by (meson order_le_less_trans order_trans)
    then have "\<not> (2::rat) powi 1024 \<le> of_int m * ?ulp" by (simp only: not_le)
    then show ?thesis using 3 by auto
  qed
qed


text \<open>Two literals that a double cannot hold.\<close>

lemma round_to_double_infinite:
  assumes "2 powi 1024 \<le> q"
  shows "round_to_double q = PosInfinity"
proof -
  have q: "0 < q" using assms powi_pos [of 1024] by linarith
  have "(2::rat) powi 1024 < 2 powi (floor_log2 q + 1)"
    using floor_log2_bounds [OF q] assms by linarith
  then have "1024 < floor_log2 q + 1"
    by (metis linorder_not_less powi_mono)
  then show ?thesis using q by (simp add: round_to_double_def Let_def)
qed

lemma StringToNumber_1e400: "StringToNumber ''1e400'' = PosInfinity"
proof -
  have t: "trim ''1e400'' = ''1e400''" by code_simp
  have n: "NonDecimalIntegerLiteral ''1e400'' = None" by code_simp
  have d: "StrDecimalLiteral ''1e400'' = Some (Finite (10 ^ 400))"
    by (simp add: StrDecimalLiteral_def StrUnsignedDecimalLiteral_def DecimalMantissa_def
          SignedInteger_def isDigits_def digitsValue_def digitValue_def scale10_def Let_def)
  have "(2::rat) powi 1024 \<le> 10 ^ 400" by simp
  then have "round_to_double (10 ^ 400) = PosInfinity" by (rule round_to_double_infinite)
  then show ?thesis by (simp only: StringToNumber_def Let_def t n d) simp
qed

lemma StringToNumber_2_53_1: "StringToNumber ''9007199254740993'' = Finite 9007199254740992"
proof -
  have t: "trim ''9007199254740993'' = ''9007199254740993''" by code_simp
  have n: "NonDecimalIntegerLiteral ''9007199254740993'' = None" by code_simp
  have d: "StrDecimalLiteral ''9007199254740993'' = Some (Finite 9007199254740993)"
    by (simp add: StrDecimalLiteral_def StrUnsignedDecimalLiteral_def DecimalMantissa_def
          digitsValue_def digitValue_def Let_def)
  have r: "round_to_double 9007199254740993 = Finite 9007199254740992" by code_simp
  show ?thesis by (simp only: StringToNumber_def Let_def t n d) (simp add: r)
qed

subsection \<open>Sorting with a comparator\<close>

lemma mset_insertion: "mset (insertion c x ys) = add_mset x (mset ys)"
  by (induction ys) auto

lemma mset_foldl_insertion:
  "mset (foldl (\<lambda>sorted element. insertion c element sorted) acc xs) = mset acc + mset xs"
  by (induction xs arbitrary: acc) (auto simp: mset_insertion)

lemma mset_Array_sort: "mset (Array_sort c xs) = mset xs"
  by (simp add: Array_sort_def mset_foldl_insertion)

lemma set_insertion: "set (insertion c x ys) = insert x (set ys)"
  by (metis mset_insertion set_mset_add_mset_insert set_mset_mset)

lemma js_less_asym: "js_less x y \<Longrightarrow> \<not> js_less y x"
  by (cases x; cases y) auto

lemma comparable_not_NaN: "comparable x \<Longrightarrow> x \<noteq> NaN"
  by (auto simp: comparable_def)

lemma sorted_insertion:
  assumes "\<forall>z \<in> insert x (set ys). comparable (k z)"
    and "sorted_wrt (\<lambda>u v. \<not> js_less (k u) (k v)) ys"
  shows "sorted_wrt (\<lambda>u v. \<not> js_less (k u) (k v)) (insertion (\<lambda>a b. js_minus (k a) (k b)) x ys)"
  using assms
proof (induction ys)
  case Nil
  then show ?case by simp
next
  case (Cons y ys)
  let ?c = "\<lambda>a b. js_minus (k a) (k b)"
  have dx: "comparable (k x)" and dy: "comparable (k y)" using Cons.prems(1) by simp_all
  have cmp: "js_positive (js_minus (k y) (k x)) = js_less (k x) (k y)"
    using compare_positive_iff [OF dy dx] .
  have tail: "sorted_wrt (\<lambda>u v. \<not> js_less (k u) (k v)) ys"
    and head: "\<forall>z \<in> set ys. \<not> js_less (k y) (k z)"
    using Cons.prems(2) by simp_all
  show ?case
  proof (cases "js_less (k x) (k y)")
    case True
    have ih: "sorted_wrt (\<lambda>u v. \<not> js_less (k u) (k v)) (insertion ?c x ys)"
      using Cons.prems(1) tail by (intro Cons.IH) simp_all
    have "\<not> js_less (k y) (k x)" using True by (rule js_less_asym)
    then have "\<forall>z \<in> set (insertion ?c x ys). \<not> js_less (k y) (k z)"
      using head by (simp add: set_insertion)
    then show ?thesis using True cmp ih by simp
  next
    case False
    have "\<not> js_less (k x) (k z)" if "z \<in> set ys" for z
    proof -
      have "comparable (k z)" using Cons.prems(1) that by simp
      then show ?thesis
        using js_less_trans_not [of "k x" "k y" "k z"] dx dy False head that
        by (auto dest: comparable_not_NaN)
    qed
    then show ?thesis using False cmp Cons.prems(2) by simp
  qed
qed

lemma sorted_foldl_insertion:
  assumes "\<forall>z \<in> set acc \<union> set xs. comparable (k z)"
    and "sorted_wrt (\<lambda>u v. \<not> js_less (k u) (k v)) acc"
  shows "sorted_wrt (\<lambda>u v. \<not> js_less (k u) (k v))
           (foldl (\<lambda>sorted element. insertion (\<lambda>a b. js_minus (k a) (k b)) element sorted) acc xs)"
  using assms
proof (induction xs arbitrary: acc)
  case Nil
  then show ?case by simp
next
  case (Cons x xs)
  have "sorted_wrt (\<lambda>u v. \<not> js_less (k u) (k v)) (insertion (\<lambda>a b. js_minus (k a) (k b)) x acc)"
    using Cons.prems by (intro sorted_insertion) simp_all
  moreover have "\<forall>z \<in> set (insertion (\<lambda>a b. js_minus (k a) (k b)) x acc) \<union> set xs. comparable (k z)"
    using Cons.prems(1) by (simp add: set_insertion)
  ultimately show ?case using Cons.IH by simp
qed

lemma sorted_Array_sort:
  assumes "\<forall>z \<in> set xs. comparable (k z)"
  shows "sorted_wrt (\<lambda>u v. \<not> js_less (k v) (k u)) (Array_sort (\<lambda>a b. js_minus (k a) (k b)) xs)"
  using sorted_foldl_insertion [of "[]" xs k] assms
  by (simp add: Array_sort_def sorted_wrt_rev)

lemma js_less_irrefl: "\<not> js_less x x"
  by (cases x) simp_all

lemma length_insertion: "length (insertion c x ys) = Suc (length ys)"
  by (induction ys) simp_all

lemma length_Array_sort: "length (Array_sort c xs) = length xs"
proof -
  have "length (foldl (\<lambda>sorted element. insertion c element sorted) acc xs)
          = length acc + length xs" for acc
    by (induction xs arbitrary: acc) (simp_all add: length_insertion)
  then show ?thesis by (simp add: Array_sort_def)
qed

section \<open>The claims\<close>

subsection \<open>C1: a failure never ends in a crash\<close>

text \<open>
  Claim C1: every failure outcome ends in a failure emission or a no-op, never in a crash
  or an unobserved rejection; in particular, with a present error and an emit-on-fail or
  emit-on-fail-for policy, with or without an emit-on-success policy, \<^verbatim>\<open>handleFailResult\<close>
  completes and emits. The code does not do this. In the branch for a present error,
  \<^verbatim>\<open>handleFailResult\<close> first reads \<^verbatim>\<open>action.emitOnSuccess.classTransformOptions\<close>, as
  \<^verbatim>\<open>handleSuccessResult\<close> does, but without the guard that \<^verbatim>\<open>action.emitOnSuccess\<close>
  exists. For an action that declares emit-on-fail alone and whose handler throws an
  \<^verbatim>\<open>Error\<close>, it throws a TypeError inside the \<^verbatim>\<open>catch\<close> callback: nothing is emitted and the
  rejection is handled by nobody.
\<close>

theorem failure_without_success_policy_is_unhandled:
  "outcome (handleAction sample_runtime sample_executor [] fail_only_action (message JUndefined))
     = Inl boom
   \<and> handleFailResult sample_runtime sample_executor boom fail_only_action
       = Inl (TypeError ''Cannot read property classTransformOptions of undefined'')
   \<and> effects (dispatch sample_runtime sample_executor [] fail_only_action (message JUndefined) True)
       = []
   \<and> unhandled (dispatch sample_runtime sample_executor [] fail_only_action (message JUndefined) True)
       = Some (TypeError ''Cannot read property classTransformOptions of undefined'')"
  by code_simp

theorem failure_without_success_policy_is_unhandled_witness:
  "unhandled (dispatch sample_runtime sample_executor [] fail_only_action (message JUndefined) True)
     \<noteq> None"
  using failure_without_success_policy_is_unhandled by simp

text \<open>Where the emit-on-success policy is declared, the read succeeds, and the only throw
  left is \<^verbatim>\<open>Object.keys\<close> of a null \<^verbatim>\<open>classToPlain\<close> result.\<close>

lemma handleFailResult_completes:
  assumes "emitOnSuccess action = Some success"
    and "\<not> is_nullish (classToPlain rt error
            (js_or (result_classTransformOptions success) (classToPlainTransformOptions this)))"
  shows "\<exists>es. handleFailResult rt this error action = Inr es"
proof -
  let ?plain = "classToPlain rt error
            (js_or (result_classTransformOptions success) (classToPlainTransformOptions this))"
  have "object_keys_length ?plain \<noteq> None"
    using assms(2) by (cases ?plain) auto
  then obtain n where n: "object_keys_length ?plain = Some n" by auto
  have "\<exists>m. object_keys_length error = Some m" if "instanceof_Error error"
    using that by (cases error) auto
  then show ?thesis
    using assms(1) n by (auto simp: handleFailResult_def Let_def)
qed

subsection \<open>C2: emit-on-fail-for before emit-on-fail\<close>

text \<open>
  Claim C2, amended. The executor matches an error against the type of an emit-on-fail-for
  policy by name: \<^verbatim>\<open>error.constructor.name === expectedType.name\<close>. For every present
  error whose constructor has the name of \<open>T\<close>, and every action that declares
  emit-on-fail-for(\<open>T\<close>), emit-on-fail and emit-on-success, \<^verbatim>\<open>handleFailResult\<close> makes
  exactly one emission, on the emit-on-fail-for event, with the serialised error; the
  emit-on-fail event is not emitted. This holds whether the policy holds \<open>T\<close> itself or a
  thunk returning \<open>T\<close>, \<open>errorType\<close> being read when the error is matched.
\<close>

theorem fail_for_takes_precedence:
  assumes "emitOnSuccess action = Some success"
    and "emitOnFail action = Some fail"
    and "emitOnFailFor action = Some failFor"
    and "errorTypeReference failFor = TypeItself T \<or> errorTypeReference failFor = TypeThunk (\<lambda>_. T)"
    and "constructor_name error = Some (function_name T)"
  shows "handleFailResult rt this error action =
           Inr [Emit (result_value failFor)
                  (Some (if useClassTransformer this \<and> instanceof_Object error
                         then classToPlain rt error
                                (js_or (result_classTransformOptions success)
                                   (classToPlainTransformOptions this))
                         else error))]"
proof -
  have "\<not> is_nullish error" using assms(5) by (cases error) auto
  moreover have "errorType failFor = Some (ExpectedFunction T)"
    using assms(4) by (auto simp: errorType_def)
  ultimately show ?thesis
    using assms(1,3,5) by (simp add: handleFailResult_def Let_def errorMatchesType_def)
qed

text \<open>The sample's \<^verbatim>\<open>save\<close> action, rejected with a \<^verbatim>\<open>ValidationException\<close>.\<close>

theorem fail_for_takes_precedence_witness:
  "handleFailResult sample_runtime sample_executor (ValidationException [JStr ''text'']) save_action
   = Inr [Emit ''save/validation_error''
            (Some (plain_object [(''message'', JStr ''Validation failed''),
                                 (''name'', JStr ''ValidationException''),
                                 (''errors'', JArray [JStr ''text''])]))]"
proof -
  have c: "constructor_name (ValidationException [JStr ''text''])
             = Some (function_name (Function ''ValidationException''))"
    by (simp add: ValidationException_def)
  show ?thesis
    using fail_for_takes_precedence
            [of save_action _ _ _ "Function ''ValidationException''"
                "ValidationException [JStr ''text'']" sample_runtime sample_executor, OF _ _ _ _ c]
    by (simp add: save_action_def sample_executor_def sample_runtime_def ValidationException_def
                  plain_object_def)
qed

text \<open>
  As stated, for every error that is an instance of \<open>T\<close>, the claim fails: a \<^verbatim>\<open>TypeError\<close> is
  an instance of \<^verbatim>\<open>Error\<close>, its constructor is not called \<^verbatim>\<open>Error\<close>, and an action with
  emit-on-fail-for(\<^verbatim>\<open>Error\<close>) and emit-on-fail emits it on the emit-on-fail event.
\<close>

theorem subclass_instance_goes_to_emit_on_fail:
  "instanceof_Error (TypeError ''bad'')
   \<and> errorType (the (emitOnFailFor any_error_action)) = Some (ExpectedFunction (Function ''Error''))
   \<and> emitOnFail any_error_action \<noteq> None
   \<and> handleFailResult sample_runtime sample_executor (TypeError ''bad'') any_error_action
        = Inr [Emit ''save/error'' (Some (JStr ''TypeError: bad''))]"
  by code_simp

subsection \<open>C3: arguments in index order\<close>

text \<open>
  Claim C3: whenever the handler is called, its argument list is the list of resolved values
  of the parameter descriptors in ascending order of \<open>index\<close> (strictly ascending when no
  two descriptors share an index): the descriptors are sorted before they are resolved, and
  \<^verbatim>\<open>Promise.all\<close> keeps their order whatever the order \<open>order\<close> in which the resolutions
  complete, so that any other completion order \<open>order'\<close> gives the same call.
\<close>

theorem arguments_in_index_order:
  assumes "handler_calls (handleAction rt this order action opts) = [args]"
  shows "map (paramPromise rt this opts) (sort_key index (params action)) = map Inr args
         \<and> mset (sort_key index (params action)) = mset (params action)
         \<and> sorted (map index (sort_key index (params action)))
         \<and> (distinct (map index (params action))
              \<longrightarrow> sorted_wrt (<) (map index (sort_key index (params action))))
         \<and> handler_calls (handleAction rt this order' action opts) = [args]"
proof -
  have d: "distinct (map index (sort_key index (params action)))"
    if "distinct (map index (params action))"
    using that by (metis distinct_map distinct_sort set_sort)
  have "handler_calls (handleAction rt this order' action opts) = [args]"
    using assms handler_calls_any_order [of rt this order' action opts order] by simp
  then show ?thesis
    using handleAction_called [OF assms] d
    by (simp add: sorted_distinct_strict)
qed

text \<open>The \<^verbatim>\<open>save\<close> action lists its body parameter (index 1) before its socket parameter
  (index 0), and the body settles first; the handler still gets the socket first.\<close>

theorem arguments_in_index_order_witness:
  "map index (params save_action) = [1, 0]
   \<and> handler_calls (handleAction sample_runtime sample_executor [1, 0] save_action
       (message (JStr ''{\"text\":\"hi\",\"author\":\"me\"}'')))
     = [[socket_object sample_socket,
         JObject (Function ''CreateMessageDto'') False ''[object Object]''
           [(''text'', JStr ''hi''), (''author'', JStr ''me'')]]]
   \<and> map index (sort_key index (params save_action)) = [0, 1]
   \<and> sorted_wrt (<) (map index (sort_key index (params save_action)))
   \<and> handler_calls (handleAction sample_runtime sample_executor [0, 1] save_action
       (message (JStr ''{\"text\":\"hi\",\"author\":\"me\"}'')))
     = [[socket_object sample_socket,
         JObject (Function ''CreateMessageDto'') False ''[object Object]''
           [(''text'', JStr ''hi''), (''author'', JStr ''me'')]]]"
proof -
  have h: "handler_calls (handleAction sample_runtime sample_executor [1, 0] save_action
       (message (JStr ''{\"text\":\"hi\",\"author\":\"me\"}'')))
     = [[socket_object sample_socket,
         JObject (Function ''CreateMessageDto'') False ''[object Object]''
           [(''text'', JStr ''hi''), (''author'', JStr ''me'')]]]"
    by code_simp
  have i: "map index (params save_action) = [1, 0]"
    by (simp add: save_action_def body_param_def socket_param_def)
  have s: "map index (sort_key index (params save_action)) = [0, 1]"
    by (simp add: save_action_def body_param_def socket_param_def)
  note c = arguments_in_index_order [OF h, of "[0, 1]"]
  have "sorted_wrt (<) (map index (sort_key index (params save_action)))"
    using c i by simp
  moreover have "handler_calls (handleAction sample_runtime sample_executor [0, 1] save_action
       (message (JStr ''{\"text\":\"hi\",\"author\":\"me\"}'')))
     = [[socket_object sample_socket,
         JObject (Function ''CreateMessageDto'') False ''[object Object]''
           [(''text'', JStr ''hi''), (''author'', JStr ''me'')]]]"
    using c by blast
  ultimately show ?thesis using h i s by simp
qed

subsection \<open>C4: emission and acknowledgment on success\<close>

text \<open>
  Claim C4, amended. \<^verbatim>\<open>handleSuccessResult\<close> is one chain of alternatives, so it has at most
  one effect. With an emit-on-success policy declared it emits on the policy's event and does
  not call the acknowledgment callback, except when the value is absent and
  \<^verbatim>\<open>skipEmitOnEmptyResult\<close> is set: then nothing is emitted and a callback, if given,
  receives \<^verbatim>\<open>"received"\<close>. With no policy, a given callback is called exactly once, with
  the value if it is present and with \<^verbatim>\<open>"received"\<close> if it is absent; with neither policy
  nor callback nothing happens.
\<close>

theorem success_emission_before_acknowledgment:
  "(emitOnSuccess action \<noteq> None \<and> \<not> (is_nullish result \<and> skipEmitOnEmptyResult action) \<longrightarrow>
      (\<exists>payload. handleSuccessResult rt this result action cb
                   = [Emit (result_value (the (emitOnSuccess action))) payload]))
   \<and> (emitOnSuccess action \<noteq> None \<and> is_nullish result \<and> skipEmitOnEmptyResult action \<longrightarrow>
        handleSuccessResult rt this result action cb = (if cb then [Ack (JStr ''received'')] else []))
   \<and> (emitOnSuccess action = None \<and> cb \<and> \<not> is_nullish result \<longrightarrow>
        handleSuccessResult rt this result action cb = [Ack result])
   \<and> (emitOnSuccess action = None \<and> cb \<and> is_nullish result \<longrightarrow>
        handleSuccessResult rt this result action cb = [Ack (JStr ''received'')])
   \<and> (emitOnSuccess action = None \<and> \<not> cb \<longrightarrow>
        handleSuccessResult rt this result action cb = [])"
  by (simp add: handleSuccessResult_def Let_def)

theorem success_emission_before_acknowledgment_witness:
  "handleSuccessResult sample_runtime sample_executor (JStr ''ok'') save_action True
     = [Emit ''save/success'' (Some (JStr ''ok''))]
   \<and> handleSuccessResult sample_runtime sample_executor JNull
        (save_action\<lparr>skipEmitOnEmptyResult := True\<rparr>) True = [Ack (JStr ''received'')]
   \<and> handleSuccessResult sample_runtime sample_executor (JStr ''ok'') fail_only_action True
        = [Ack (JStr ''ok'')]
   \<and> handleSuccessResult sample_runtime sample_executor JUndefined fail_only_action True
        = [Ack (JStr ''received'')]
   \<and> handleSuccessResult sample_runtime sample_executor (JStr ''ok'') fail_only_action False = []"
  using success_emission_before_acknowledgment
          [of save_action "JStr ''ok''" sample_runtime sample_executor True]
        success_emission_before_acknowledgment
          [of "save_action\<lparr>skipEmitOnEmptyResult := True\<rparr>" JNull sample_runtime sample_executor True]
        success_emission_before_acknowledgment
          [of fail_only_action "JStr ''ok''" sample_runtime sample_executor True]
        success_emission_before_acknowledgment
          [of fail_only_action JUndefined sample_runtime sample_executor True]
        success_emission_before_acknowledgment
          [of fail_only_action "JStr ''ok''" sample_runtime sample_executor False]
  by (simp add: save_action_def fail_only_action_def handleSuccessResult_def sample_executor_def)

text \<open>
  As stated, with a policy declared the callback is never invoked, the claim fails: the
  handler returns \<^verbatim>\<open>undefined\<close>, the action declares emit-on-success and
  \<^verbatim>\<open>skipEmitOnEmptyResult\<close>, and the client gave a callback.
\<close>

theorem callback_invoked_despite_policy:
  "emitOnSuccess (save_action\<lparr>skipEmitOnEmptyResult := True\<rparr>) \<noteq> None
   \<and> handleSuccessResult sample_runtime sample_executor JUndefined
        (save_action\<lparr>skipEmitOnEmptyResult := True\<rparr>) True = [Ack (JStr ''received'')]"
  by (simp add: handleSuccessResult_def save_action_def)

subsection \<open>C5: the transform of a parameter\<close>

text \<open>
  Claim C5, amended. \<^verbatim>\<open>param.transform\<close> is applied in \<^verbatim>\<open>handleParam\<close> only. For a
  parameter of any kind that \<^verbatim>\<open>handleAction\<close> resolves through \<^verbatim>\<open>handleParam\<close> (the message
  body, and every kind other than the six below), a declared transform is applied to the
  resolved value and the connection object, and what it returns replaces the resolved value.
  For the connected socket, the server, a query parameter, the socket id, the request and
  the rooms, the value is passed as it is read and a declared transform is not consulted.
\<close>

theorem transform_applies_to_handleParam_kinds:
  "(param_type p \<notin> {CONNECTED_SOCKET, SOCKET_IO, SOCKET_QUERY_PARAM, SOCKET_ID, SOCKET_REQUEST,
                      SOCKET_ROOMS} \<longrightarrow>
      paramPromise rt this opts p =
        (case paramPromise rt this opts (p\<lparr>transform := None\<rparr>) of
           Inl e \<Rightarrow> Inl e
         | Inr v \<Rightarrow> (case transform p of
                       Some f \<Rightarrow> f v (socket_object (socket opts))
                     | None \<Rightarrow> Inr v)))
   \<and> (param_type p \<in> {CONNECTED_SOCKET, SOCKET_IO, SOCKET_QUERY_PARAM, SOCKET_ID, SOCKET_REQUEST,
                        SOCKET_ROOMS} \<longrightarrow>
        paramPromise rt this opts p = paramPromise rt this opts (p\<lparr>transform := None\<rparr>))"
  by (auto simp: paramPromise_def handleParam_def handleParamFormat_ignores_transform
           split: sum.splits option.splits)

theorem transform_applies_to_handleParam_kinds_witness:
  "paramPromise sample_runtime sample_executor (message (JStr ''42'')) number_param
     = Inr (JArray [JStr ''transformed'', JNum (Finite 42)])
   \<and> paramPromise sample_runtime sample_executor (message (JStr ''42'')) id_param
     = paramPromise sample_runtime sample_executor (message (JStr ''42''))
         (id_param\<lparr>transform := None\<rparr>)"
proof -
  have raw: "paramPromise sample_runtime sample_executor (message (JStr ''42''))
          (number_param\<lparr>transform := None\<rparr>) = Inr (JNum (Finite 42))"
    by code_simp
  have k: "param_type number_param = SOCKET_BODY" "transform number_param = Some mark_transform"
      "param_type id_param = SOCKET_ID"
    by (simp_all add: number_param_def id_param_def)
  show ?thesis
    using transform_applies_to_handleParam_kinds
            [of number_param sample_runtime sample_executor "message (JStr ''42'')"]
          transform_applies_to_handleParam_kinds
            [of id_param sample_runtime sample_executor "message (JStr ''42'')"]
          raw k
    by (simp add: mark_transform_def)
qed

text \<open>
  As stated, for every source kind, the claim fails: a socket-id parameter with a transform
  resolves to the id itself, not to what the transform returns for it.
\<close>

theorem transform_skipped_for_connection_id:
  "transform id_param = Some mark_transform
   \<and> paramPromise sample_runtime sample_executor (message JUndefined) id_param = Inr (JStr ''s1'')
   \<and> mark_transform (JStr ''s1'') (socket_object sample_socket)
        = Inr (JArray [JStr ''transformed'', JStr ''s1''])"
  by (simp add: id_param_def paramPromise_def message_def sample_socket_def mark_transform_def)

subsection \<open>C6: coercion of the message body\<close>

text \<open>
  Claim C6, amended. The message body is resolved by \<^verbatim>\<open>handleParam\<close>: the payload is coerced
  and the result is handed to the transform, if there is one (\<open>applyTransform\<close>). For the
  declared type \<^verbatim>\<open>number\<close>, a payload \<open>v\<close> that is a primitive value resolves to the number
  \<^verbatim>\<open>+v\<close>, a double: the string \<^verbatim>\<open>"42"\<close> to 42, a string of white space to 0, and a string to
  NaN exactly when, white space at its ends apart, it is not empty and not a numeric
  literal. A payload that is an object or an array is converted by its own \<^verbatim>\<open>valueOf\<close> and
  \<^verbatim>\<open>toString\<close>, and where that conversion throws the resolution fails with what was thrown.
  For the declared type \<^verbatim>\<open>boolean\<close>, \<^verbatim>\<open>"true"\<close> resolves to true, \<^verbatim>\<open>"false"\<close> to false and
  every other value to its truthiness. A payload that is null, undefined or the empty
  string is not coerced, whatever the declared type: it is passed on unchanged (to the
  transform, if there is one).
\<close>

theorem message_body_coercion:
  "(toLowerCase (formatName (reflectedType p)) = ''number'' \<longrightarrow>
      (data opts = JStr s \<and> s \<noteq> [] \<longrightarrow>
         handleParam rt this p opts = applyTransform p opts (JNum (StringToNumber s)))
      \<and> (data opts \<noteq> JNull \<and> data opts \<noteq> JUndefined \<and> data opts \<noteq> JStr []
            \<and> primitiveToNumber (data opts) = Some n \<longrightarrow>
          handleParam rt this p opts = applyTransform p opts (JNum n))
      \<and> (primitiveToNumber (data opts) = None \<longrightarrow>
          handleParam rt this p opts =
            (case objectToNumber rt (data opts) of
               Inl e \<Rightarrow> Inl e
             | Inr k \<Rightarrow> applyTransform p opts (JNum k))))
   \<and> StringToNumber ''42'' = Finite 42
   \<and> (trim s = [] \<longrightarrow> StringToNumber s = Finite 0)
   \<and> ((StringToNumber s = NaN) =
        (trim s \<noteq> [] \<and> NonDecimalIntegerLiteral (trim s) = None
           \<and> StrDecimalLiteral (trim s) = None))
   \<and> (toLowerCase (formatName (reflectedType p)) = ''boolean''
        \<and> data opts \<noteq> JNull \<and> data opts \<noteq> JUndefined \<and> data opts \<noteq> JStr [] \<longrightarrow>
        handleParam rt this p opts =
          applyTransform p opts
            (JBool (if data opts = JStr ''true'' then True
                    else if data opts = JStr ''false'' then False else truthy (data opts))))
   \<and> (data opts = JNull \<or> data opts = JUndefined \<or> data opts = JStr [] \<longrightarrow>
        handleParam rt this p opts = applyTransform p opts (data opts))
   \<and> (transform p = None \<longrightarrow> applyTransform p opts v = Inr v)
   \<and> (param_type p = SOCKET_BODY \<longrightarrow> paramPromise rt this opts p = handleParam rt this p opts)"
proof (intro conjI impI)
  assume n: "toLowerCase (formatName (reflectedType p)) = ''number''"
  show "handleParam rt this p opts = applyTransform p opts (JNum (StringToNumber s))"
    if "data opts = JStr s \<and> s \<noteq> []"
    using that by (intro handleParam_number_primitive [OF n]) simp_all
  show "handleParam rt this p opts = applyTransform p opts (JNum n)"
    if "data opts \<noteq> JNull \<and> data opts \<noteq> JUndefined \<and> data opts \<noteq> JStr []
            \<and> primitiveToNumber (data opts) = Some n"
    using that by (intro handleParam_number_primitive [OF n]) simp_all
  show "handleParam rt this p opts =
            (case objectToNumber rt (data opts) of
               Inl e \<Rightarrow> Inl e
             | Inr k \<Rightarrow> applyTransform p opts (JNum k))"
    if "primitiveToNumber (data opts) = None"
    using that by (rule handleParam_number_object [OF n])
next
  show "StringToNumber ''42'' = Finite 42" by (rule StringToNumber_42)
next
  show "StringToNumber s = Finite 0" if "trim s = []" using that by (rule StringToNumber_blank)
next
  show "(StringToNumber s = NaN) =
        (trim s \<noteq> [] \<and> NonDecimalIntegerLiteral (trim s) = None
           \<and> StrDecimalLiteral (trim s) = None)"
    by (rule StringToNumber_NaN_iff)
next
  assume "toLowerCase (formatName (reflectedType p)) = ''boolean''
        \<and> data opts \<noteq> JNull \<and> data opts \<noteq> JUndefined \<and> data opts \<noteq> JStr []"
  then show "handleParam rt this p opts =
          applyTransform p opts
            (JBool (if data opts = JStr ''true'' then True
                    else if data opts = JStr ''false'' then False else truthy (data opts)))"
    by (intro handleParam_boolean) simp_all
next
  assume "data opts = JNull \<or> data opts = JUndefined \<or> data opts = JStr []"
  then show "handleParam rt this p opts = applyTransform p opts (data opts)"
    by (rule handleParam_bypassed)
next
  show "applyTransform p opts v = Inr v" if "transform p = None"
    using that by (simp add: applyTransform_def)
next
  show "paramPromise rt this opts p = handleParam rt this p opts" if "param_type p = SOCKET_BODY"
    using that by (simp add: paramPromise_def)
qed

text \<open>
  Parameters of the declared types \<^verbatim>\<open>number\<close> and \<^verbatim>\<open>boolean\<close> without a transform, on the
  payloads \<^verbatim>\<open>"42"\<close>, \<^verbatim>\<open>"abc"\<close>, one space, two literals no double holds, \<^verbatim>\<open>true\<close>, the object
  \<^verbatim>\<open>{"toString": 1}\<close>, and the three payloads that are not coerced.
\<close>

theorem message_body_coercion_witness:
  "handleParam sample_runtime sample_executor count_param (message (JStr ''42''))
     = Inr (JNum (Finite 42))
   \<and> paramPromise sample_runtime sample_executor (message (JStr ''42'')) count_param
     = Inr (JNum (Finite 42))
   \<and> handleParam sample_runtime sample_executor count_param (message (JStr ''abc''))
     = Inr (JNum NaN)
   \<and> handleParam sample_runtime sample_executor count_param (message (JStr '' ''))
     = Inr (JNum (Finite 0))
   \<and> handleParam sample_runtime sample_executor count_param (message (JStr ''9007199254740993''))
     = Inr (JNum (Finite 9007199254740992))
   \<and> handleParam sample_runtime sample_executor count_param (message (JStr ''1e400''))
     = Inr (JNum PosInfinity)
   \<and> handleParam sample_runtime sample_executor count_param (message (JBool True))
     = Inr (JNum (Finite 1))
   \<and> handleParam sample_runtime sample_executor count_param
        (message (plain_object [(''toString'', JNum (Finite 1))]))
     = Inl (TypeError ''Cannot convert object to primitive value'')
   \<and> handleParam sample_runtime sample_executor boolean_param (message (JStr ''true''))
     = Inr (JBool True)
   \<and> handleParam sample_runtime sample_executor boolean_param (message (JStr ''false''))
     = Inr (JBool False)
   \<and> handleParam sample_runtime sample_executor boolean_param (message (JStr ''1''))
     = Inr (JBool True)
   \<and> handleParam sample_runtime sample_executor boolean_param (message (JNum (Finite 0)))
     = Inr (JBool False)
   \<and> handleParam sample_runtime sample_executor boolean_param (message (JStr [])) = Inr (JStr [])
   \<and> handleParam sample_runtime sample_executor boolean_param (message JNull) = Inr JNull
   \<and> handleParam sample_runtime sample_executor count_param (message JUndefined) = Inr JUndefined"
proof -
  let ?object = "plain_object [(''toString'', JNum (Finite 1))]"
  have n: "toLowerCase (formatName (reflectedType count_param)) = ''number''"
    by code_simp
  have b: "toLowerCase (formatName (reflectedType boolean_param)) = ''boolean''"
    by code_simp
  have k: "param_type count_param = SOCKET_BODY" "transform count_param = None"
      "transform boolean_param = None"
    by (simp_all add: count_param_def boolean_param_def)
  have d: "data (message v) = v" for v
    by (simp add: message_def)
  have abc: "trim ''abc'' \<noteq> [] \<and> NonDecimalIntegerLiteral (trim ''abc'') = None
            \<and> StrDecimalLiteral (trim ''abc'') = None"
    by code_simp
  have blank: "trim '' '' = []"
    by code_simp
  have object: "primitiveToNumber ?object = None"
      "objectToNumber sample_runtime ?object
         = Inl (TypeError ''Cannot convert object to primitive value'')"
    by (simp_all add: plain_object_def sample_runtime_def)
  note c = message_body_coercion [where rt = sample_runtime and this = sample_executor]
  have plain: "applyTransform count_param opts v = Inr v"
      "applyTransform boolean_param opts v = Inr v" for opts v
    by (simp_all add: applyTransform_def k)
  have "handleParam sample_runtime sample_executor count_param (message (JStr ''42''))
          = Inr (JNum (Finite 42))"
    using c [where p = count_param and opts = "message (JStr ''42'')" and s = "''42''"] n
    by (simp add: d plain)
  moreover have "paramPromise sample_runtime sample_executor (message (JStr ''42'')) count_param
          = handleParam sample_runtime sample_executor count_param (message (JStr ''42''))"
    using c [where p = count_param and opts = "message (JStr ''42'')"] k(1)
    by blast
  moreover have "handleParam sample_runtime sample_executor count_param (message (JStr ''abc''))
          = Inr (JNum NaN)"
    using c [where p = count_param and opts = "message (JStr ''abc'')" and s = "''abc''"] n abc
    by (simp add: d plain)
  moreover have "handleParam sample_runtime sample_executor count_param (message (JStr '' ''))
          = Inr (JNum (Finite 0))"
    using c [where p = count_param and opts = "message (JStr '' '')" and s = "'' ''"] n blank
    by (simp add: d plain)
  moreover have "handleParam sample_runtime sample_executor count_param
                   (message (JStr ''9007199254740993''))
          = Inr (JNum (Finite 9007199254740992))"
    using c [where p = count_param and opts = "message (JStr ''9007199254740993'')"
               and s = "''9007199254740993''"] n StringToNumber_2_53_1
    by (simp add: d plain)
  moreover have "handleParam sample_runtime sample_executor count_param (message (JStr ''1e400''))
          = Inr (JNum PosInfinity)"
    using c [where p = count_param and opts = "message (JStr ''1e400'')" and s = "''1e400''"] n
          StringToNumber_1e400
    by (simp add: d plain)
  moreover have "handleParam sample_runtime sample_executor count_param (message (JBool True))
          = Inr (JNum (Finite 1))"
    using c [where p = count_param and opts = "message (JBool True)" and n = "Finite 1"] n
    by (simp add: d plain)
  moreover have "handleParam sample_runtime sample_executor count_param (message ?object)
          = Inl (TypeError ''Cannot convert object to primitive value'')"
    using c [where p = count_param and opts = "message ?object"] n object
    by (simp add: d)
  moreover have "handleParam sample_runtime sample_executor boolean_param (message (JStr ''true''))
          = Inr (JBool True)"
    and "handleParam sample_runtime sample_executor boolean_param (message (JStr ''false''))
          = Inr (JBool False)"
    and "handleParam sample_runtime sample_executor boolean_param (message (JStr ''1''))
          = Inr (JBool True)"
    and "handleParam sample_runtime sample_executor boolean_param (message (JNum (Finite 0)))
          = Inr (JBool False)"
    using c [where p = boolean_param and opts = "message (JStr ''true'')"]
          c [where p = boolean_param and opts = "message (JStr ''false'')"]
          c [where p = boolean_param and opts = "message (JStr ''1'')"]
          c [where p = boolean_param and opts = "message (JNum (Finite 0))"] b
    by (simp_all add: d plain)
  moreover have "handleParam sample_runtime sample_executor boolean_param (message (JStr []))
          = Inr (JStr [])"
    and "handleParam sample_runtime sample_executor boolean_param (message JNull) = Inr JNull"
    and "handleParam sample_runtime sample_executor count_param (message JUndefined)
          = Inr JUndefined"
    using c [where p = boolean_param and opts = "message (JStr [])"]
          c [where p = boolean_param and opts = "message JNull"]
          c [where p = count_param and opts = "message JUndefined"]
    by (simp_all add: d plain)
  ultimately show ?thesis
    by simp
qed

text \<open>
  As stated, that input which is not numeric resolves to NaN and raises no error, the claim
  fails. A payload of one space is no number, and resolves to 0. The payload
  \<^verbatim>\<open>{"toString": 1}\<close> is no number either: its own property hides \<^verbatim>\<open>Object.prototype.toString\<close>
  and is not callable, and \<^verbatim>\<open>valueOf\<close> returns the object itself, so \<^verbatim>\<open>+value\<close> throws a
  \<^verbatim>\<open>TypeError\<close> and the resolution of the parameter is rejected with it.
\<close>

theorem non_numeric_input_is_not_always_NaN:
  "toLowerCase (formatName (reflectedType count_param)) = ''number''
   \<and> param_type count_param = SOCKET_BODY
   \<and> paramPromise sample_runtime sample_executor (message (JStr '' '')) count_param
       = Inr (JNum (Finite 0))
   \<and> paramPromise sample_runtime sample_executor
        (message (plain_object [(''toString'', JNum (Finite 1))])) count_param
       = Inl (TypeError ''Cannot convert object to primitive value'')"
  by code_simp

subsection \<open>C7: a failed resolution aborts the invocation\<close>

text \<open>
  Claim C7. If the resolution of any one parameter fails, the handler is not called at all:
  \<^verbatim>\<open>handleAction\<close> rejects with the reason of one of the failed resolutions. A rejection of
  \<^verbatim>\<open>handleAction\<close>, whether it comes from a parameter or from the handler itself, reaches the
  same \<^verbatim>\<open>catch\<close> callback, which passes it to \<^verbatim>\<open>handleFailResult\<close>.
\<close>

theorem failed_resolution_aborts_invocation:
  "((\<exists>p \<in> set (params action). isl (paramPromise rt this opts p)) \<longrightarrow>
      handler_calls (handleAction rt this order action opts) = []
      \<and> handler_called_with (dispatch rt this order action opts cb) = []
      \<and> (\<exists>e. Inl e \<in> paramPromise rt this opts ` set (params action)
             \<and> outcome (handleAction rt this order action opts) = Inl e))
   \<and> (outcome (handleAction rt this order action opts) = Inl e' \<longrightarrow>
        dispatch rt this order action opts cb
          = catchFail rt this (handleAction rt this order action opts) e')"
proof (intro conjI impI)
  assume "\<exists>p \<in> set (params action). isl (paramPromise rt this opts p)"
  then obtain p where p: "p \<in> set (params action)" "isl (paramPromise rt this opts p)"
    by blast
  from handleAction_rejected [OF p, of order] obtain e q where
    q: "q \<in> set (params action)" "paramPromise rt this opts q = Inl e"
    and h: "handleAction rt this order action opts =
              \<lparr>action_after = action\<lparr>params := sort_key index (params action)\<rparr>,
               handler_calls = [], outcome = Inl e\<rparr>"
    by blast
  show "handler_calls (handleAction rt this order action opts) = []"
    by (simp add: h)
  have o: "outcome (handleAction rt this order action opts) = Inl e"
    by (simp add: h)
  show "handler_called_with (dispatch rt this order action opts cb) = []"
    unfolding dispatch_rejected [OF o] by (simp add: h catchFail_def split: sum.splits)
  have "Inl e \<in> paramPromise rt this opts ` set (params action)"
    using q by force
  with o show "\<exists>e. Inl e \<in> paramPromise rt this opts ` set (params action)
             \<and> outcome (handleAction rt this order action opts) = Inl e"
    by blast
next
  assume "outcome (handleAction rt this order action opts) = Inl e'"
  then show "dispatch rt this order action opts cb
          = catchFail rt this (handleAction rt this order action opts) e'"
    by (rule dispatch_rejected)
qed

text \<open>A \<^verbatim>\<open>save\<close> message whose text is not JSON.\<close>

theorem failed_resolution_aborts_invocation_witness:
  "isl (paramPromise sample_runtime sample_executor (message (JStr ''{oops'')) body_param)
   \<and> handler_calls (handleAction sample_runtime sample_executor [1, 0] save_action
        (message (JStr ''{oops''))) = []
   \<and> handler_called_with (dispatch sample_runtime sample_executor [1, 0] save_action
        (message (JStr ''{oops'')) True) = []
   \<and> dispatch sample_runtime sample_executor [1, 0] save_action (message (JStr ''{oops'')) True
       = catchFail sample_runtime sample_executor
           (handleAction sample_runtime sample_executor [1, 0] save_action (message (JStr ''{oops'')))
           (ParameterParseJsonError sample_runtime (JStr ''{oops''))"
proof -
  have f: "isl (paramPromise sample_runtime sample_executor (message (JStr ''{oops'')) body_param)"
    by code_simp
  have m: "body_param \<in> set (params save_action)"
    by (simp add: save_action_def)
  have o: "outcome (handleAction sample_runtime sample_executor [1, 0] save_action
             (message (JStr ''{oops''))) = Inl (ParameterParseJsonError sample_runtime (JStr ''{oops''))"
    by code_simp
  show ?thesis
    using failed_resolution_aborts_invocation
            [of save_action sample_runtime sample_executor "message (JStr ''{oops'')" "[1, 0]" True
                "ParameterParseJsonError sample_runtime (JStr ''{oops'')"]
          f m o
    by blast
qed

subsection \<open>C8: a validation failure carries every error\<close>

text \<open>
  Claim C8. Take a message-body parameter whose declared type is a class (a function other
  than \<^verbatim>\<open>Object\<close> whose name is none of number, string, boolean), with class-transformer in
  use and validation enabled (by the parameter's own option if it has one, by the executor's
  flag otherwise), and a payload that is mapped to an instance (it is truthy and, if it is a
  string, it parses). If validating the instance gives at least one error, the resolution
  fails with a \<^verbatim>\<open>ValidationException\<close> whose \<^verbatim>\<open>errors\<close> is the whole list that
  \<^verbatim>\<open>validate\<close> returned, and the handler of an action with this parameter is not called.
\<close>

theorem validation_failure_carries_all_errors:
  assumes "param_type p = SOCKET_BODY"
    and "reflectedType p = ReflectedFunction f" "f \<noteq> GlobalObject"
    and "toLowerCase (function_name f) \<notin> {''number'', ''string'', ''boolean''}"
    and "(case param_value p of BodyOptions (Some b) \<Rightarrow> b | _ \<Rightarrow> validate this)"
    and "useClassTransformer this"
    and "truthy (data opts)"
    and "(case data opts of JStr s \<Rightarrow> JSON_parse rt s | _ \<Rightarrow> Some (data opts)) = Some plain"
    and "class_validate rt (plainToClass rt (reflectedType p) plain
           (js_or (param_classTransformOptions p) (plainToClassTransformOptions this))) = errors"
    and "errors \<noteq> []"
  shows "paramPromise rt this opts p = Inl (ValidationException errors)
         \<and> map_of (obj_props (ValidationException errors)) ''errors'' = Some (JArray errors)
         \<and> (p \<in> set (params action) \<longrightarrow>
              handler_calls (handleAction rt this order action opts) = [])"
proof -
  have pv: "parseParamValue rt this (data opts) p = Inl (ValidationException errors)"
    using assms by (intro parseParamValue_invalid) auto
  have "handleParamFormat rt this (data opts) p = Inl (ValidationException errors)"
    using assms(2,4,7) pv by (simp add: handleParamFormat_def Let_def formatName_function)
  then have hp: "handleParam rt this p opts = Inl (ValidationException errors)"
    using truthy_not_bypassed [OF assms(7)] by (simp add: handleParam_def)
  then have pp: "paramPromise rt this opts p = Inl (ValidationException errors)"
    using assms(1) by (simp add: paramPromise_def)
  have "handler_calls (handleAction rt this order action opts) = []" if "p \<in> set (params action)"
    using handleAction_rejected [OF that, of rt this opts order] pp by auto
  then show ?thesis using pp by (simp add: ValidationException_def)
qed

text \<open>An empty \<^verbatim>\<open>save\<close> message violates two constraints, and both errors are reported.\<close>

theorem validation_failure_carries_all_errors_witness:
  "class_validate sample_runtime (JObject (Function ''CreateMessageDto'') False ''[object Object]'' [])
     = [plain_object [(''property'', JStr ''text'')], plain_object [(''property'', JStr ''author'')]]
   \<and> paramPromise sample_runtime sample_executor (message (JStr ''{}'')) body_param
       = Inl (ValidationException
               [plain_object [(''property'', JStr ''text'')],
                plain_object [(''property'', JStr ''author'')]])
   \<and> handler_calls (handleAction sample_runtime sample_executor [] save_action (message (JStr ''{}'')))
       = []"
proof -
  have v: "class_validate sample_runtime
             (plainToClass sample_runtime (reflectedType body_param) (plain_object [])
                (js_or (param_classTransformOptions body_param)
                   (plainToClassTransformOptions sample_executor)))
           = [plain_object [(''property'', JStr ''text'')], plain_object [(''property'', JStr ''author'')]]"
    by code_simp
  have v': "class_validate sample_runtime
             (JObject (Function ''CreateMessageDto'') False ''[object Object]'' [])
           = [plain_object [(''property'', JStr ''text'')], plain_object [(''property'', JStr ''author'')]]"
    by code_simp
  have l: "toLowerCase (function_name (Function ''CreateMessageDto''))
             \<notin> {''number'', ''string'', ''boolean''}"
    by code_simp
  have p: "(case data (message (JStr ''{}'')) of
              JStr s \<Rightarrow> JSON_parse sample_runtime s
            | _ \<Rightarrow> Some (data (message (JStr ''{}'')))) = Some (plain_object [])"
    by (simp add: message_def sample_runtime_def)
  have m: "body_param \<in> set (params save_action)"
    by (simp add: save_action_def)
  show ?thesis
    using validation_failure_carries_all_errors
            [of body_param "Function ''CreateMessageDto''" sample_executor "message (JStr ''{}'')"
                sample_runtime "plain_object []" _ save_action "[]", OF _ _ _ l _ _ _ p v]
          v' m
    by (simp add: body_param_def sample_executor_def message_def)
qed

subsection \<open>C9: what a dispatch does to the metadata\<close>

text \<open>
  Claim C9, amended. \<^verbatim>\<open>handleAction\<close> sorts \<^verbatim>\<open>action.params\<close> where it stands, so a dispatch
  can reorder the parameter descriptors of the action; it changes nothing else. After any
  dispatch the metadata is the metadata before it with \<open>params\<close> sorted by index: the same
  descriptors, and every other field as it was. The metadata is identical before and after
  exactly when \<open>params\<close> was in ascending index order already, which it is from the first
  dispatch on.
\<close>

theorem dispatch_only_sorts_params:
  "metadata_after (dispatch rt this order action opts cb)
     = action\<lparr>params := sort_key index (params action)\<rparr>
   \<and> mset (params (metadata_after (dispatch rt this order action opts cb))) = mset (params action)
   \<and> ((metadata_after (dispatch rt this order action opts cb) = action)
        = sorted (map index (params action)))
   \<and> metadata_after (dispatch rt' this' order' (metadata_after (dispatch rt this order action opts cb))
                       opts' cb')
       = metadata_after (dispatch rt this order action opts cb)"
  by (simp add: metadata_unchanged_iff) (simp add: dispatch_metadata)

theorem dispatch_only_sorts_params_witness:
  "sorted (map index (params fail_only_action))
   \<and> metadata_after (dispatch sample_runtime sample_executor [] fail_only_action (message JUndefined) True)
       = fail_only_action
   \<and> map index (params (metadata_after
        (dispatch sample_runtime sample_executor [] save_action (message (JStr ''{}'')) True))) = [0, 1]"
proof -
  have s: "sorted (map index (params fail_only_action))"
    by (simp add: fail_only_action_def)
  have k: "map index (params (save_action\<lparr>params := sort_key index (params save_action)\<rparr>)) = [0, 1]"
    by (simp add: save_action_def body_param_def socket_param_def)
  have "metadata_after (dispatch sample_runtime sample_executor [] fail_only_action
          (message JUndefined) True) = fail_only_action"
    using s dispatch_only_sorts_params
              [of sample_runtime sample_executor "[]" fail_only_action "message JUndefined" True]
    by blast
  moreover have "metadata_after (dispatch sample_runtime sample_executor [] save_action
          (message (JStr ''{}'')) True) = save_action\<lparr>params := sort_key index (params save_action)\<rparr>"
    using dispatch_only_sorts_params
              [of sample_runtime sample_executor "[]" save_action "message (JStr ''{}'')" True]
    by blast
  ultimately show ?thesis using s k by simp
qed

text \<open>
  As stated, the metadata before and after every dispatch is identical, the claim fails:
  the \<^verbatim>\<open>save\<close> action lists its parameters with indices 1, 0, and after one dispatch it
  lists them with indices 0, 1.
\<close>

theorem dispatch_reorders_params:
  "map index (params save_action) = [1, 0]
   \<and> map index (params (metadata_after
        (dispatch sample_runtime sample_executor [] save_action (message (JStr ''{}'')) True))) = [0, 1]
   \<and> metadata_after (dispatch sample_runtime sample_executor [] save_action (message (JStr ''{}'')) True)
       \<noteq> save_action"
proof -
  have a: "map index (params save_action) = [1, 0]"
    by (simp add: save_action_def body_param_def socket_param_def)
  have b: "map index (params (metadata_after
        (dispatch sample_runtime sample_executor [] save_action (message (JStr ''{}'')) True))) = [0, 1]"
    by (simp add: dispatch_metadata save_action_def body_param_def socket_param_def)
  from a b have "metadata_after
        (dispatch sample_runtime sample_executor [] save_action (message (JStr ''{}'')) True)
       \<noteq> save_action"
    by auto
  with a b show ?thesis by simp
qed

subsection \<open>C10: middlewares in priority order\<close>

text \<open>
  Claim C10, amended. \<^verbatim>\<open>registerMiddlewares\<close> installs one wrapper for every middleware.
  When every priority is a number other than NaN (none is undefined), they are installed in
  ascending order of priority: of two installed middlewares, the one with the smaller
  priority is installed first.
\<close>

theorem middlewares_installed_by_priority:
  "mset (registerMiddlewares ms) = mset ms
   \<and> ((\<forall>m \<in> set ms. comparable (priorityNumber (priority m))) \<longrightarrow>
        (\<forall>i j. i < length ms \<and> j < length ms
            \<and> js_less (priorityNumber (priority (registerMiddlewares ms ! i)))
                      (priorityNumber (priority (registerMiddlewares ms ! j)))
          \<longrightarrow> i < j))"
proof (intro conjI impI allI)
  show "mset (registerMiddlewares ms) = mset ms"
    by (simp add: registerMiddlewares_def mset_Array_sort)
next
  fix i j
  let ?k = "\<lambda>m. priorityNumber (priority m)"
  let ?r = "registerMiddlewares ms"
  assume c: "\<forall>m \<in> set ms. comparable (?k m)"
    and ij: "i < length ms \<and> j < length ms \<and> js_less (?k (?r ! i)) (?k (?r ! j))"
  have s: "sorted_wrt (\<lambda>u v. \<not> js_less (?k v) (?k u)) ?r"
    unfolding registerMiddlewares_def using c by (rule sorted_Array_sort)
  have l: "length ?r = length ms"
    by (simp add: registerMiddlewares_def length_Array_sort)
  show "i < j"
  proof (rule ccontr)
    assume "\<not> i < j"
    then consider "j < i" | "i = j" by linarith
    then show False
    proof cases
      case 1
      then have "\<not> js_less (?k (?r ! i)) (?k (?r ! j))"
        using s ij l by (auto simp: sorted_wrt_iff_nth_less)
      then show False using ij by simp
    next
      case 2
      then show False using ij js_less_irrefl by simp
    qed
  qed
qed

text \<open>Two middlewares declared in descending order of priority.\<close>

theorem middlewares_installed_by_priority_witness:
  "comparable (priorityNumber (priority (sample_middlewares ! 0)))
   \<and> comparable (priorityNumber (priority (sample_middlewares ! 1)))
   \<and> js_less (priorityNumber (priority (sample_middlewares ! 1)))
             (priorityNumber (priority (sample_middlewares ! 0)))
   \<and> mset (registerMiddlewares sample_middlewares) = mset sample_middlewares
   \<and> map middleware_instance (registerMiddlewares sample_middlewares)
        = [JStr ''authentication'', JStr ''compression'']
   \<and> \<not> js_less (priorityNumber (priority (registerMiddlewares sample_middlewares ! 1)))
               (priorityNumber (priority (registerMiddlewares sample_middlewares ! 0)))"
proof -
  have c: "comparable (priorityNumber (priority (sample_middlewares ! 0)))"
      "comparable (priorityNumber (priority (sample_middlewares ! 1)))"
    by code_simp+
  then have every: "\<forall>m \<in> set sample_middlewares. comparable (priorityNumber (priority m))"
    by (simp add: sample_middlewares_def)
  have less: "js_less (priorityNumber (priority (sample_middlewares ! 1)))
                      (priorityNumber (priority (sample_middlewares ! 0)))"
    by code_simp
  have installed: "map middleware_instance (registerMiddlewares sample_middlewares)
                     = [JStr ''authentication'', JStr ''compression'']"
    by code_simp
  have len: "(1::nat) < length sample_middlewares" "(0::nat) < length sample_middlewares"
    by (simp_all add: sample_middlewares_def)
  note t = middlewares_installed_by_priority [of sample_middlewares]
  have "mset (registerMiddlewares sample_middlewares) = mset sample_middlewares"
    using t by blast
  moreover have "\<not> js_less (priorityNumber (priority (registerMiddlewares sample_middlewares ! 1)))
               (priorityNumber (priority (registerMiddlewares sample_middlewares ! 0)))"
  proof
    assume "js_less (priorityNumber (priority (registerMiddlewares sample_middlewares ! 1)))
               (priorityNumber (priority (registerMiddlewares sample_middlewares ! 0)))"
    then have "(1::nat) < 0" using t every len by blast
    then show False by simp
  qed
  ultimately show ?thesis using c less installed by blast
qed

text \<open>
  As stated, for every pair of middlewares, the claim fails once a priority is undefined.
  Of three middlewares with the priorities 2, undefined and 1, every comparison with the
  second is NaN, which the sort reads as equal, and the first and the third are never
  compared: the list is left as it is (an engine that first looks for a run already in
  order finds the whole list to be one, no comparison of neighbours being negative). The
  middleware of priority 1 is installed last, after the one of priority 2.
\<close>

theorem undefined_priority_breaks_order:
  "map priority unordered_middlewares = [Some (Finite 2), None, Some (Finite 1)]
   \<and> js_less (priorityNumber (priority (unordered_middlewares ! 2)))
             (priorityNumber (priority (unordered_middlewares ! 0)))
   \<and> map middleware_instance unordered_middlewares
        = [JStr ''compression'', JStr ''logging'', JStr ''authentication'']
   \<and> map middleware_instance (registerMiddlewares unordered_middlewares)
        = [JStr ''compression'', JStr ''logging'', JStr ''authentication'']"
  by code_simp

end
